theory Spec2Isabelle
  imports Complex_Main
begin

chapter \<open>Offline contest runtime: a shallow embedding of the TypeScript sources\<close>

text \<open>
  The development follows the components of the front end: the execution sandbox
  (\<^verbatim>\<open>utils/advancedOfflineRunner.ts\<close>), the session controller
  (\<^verbatim>\<open>pages/EnhancedProblemSolver.tsx\<close>), the preparation pipeline
  (\<^verbatim>\<open>utils/contestPreparation.ts\<close>), the connectivity monitor
  (\<^verbatim>\<open>utils/internetMonitor.ts\<close>) and the user state manager
  (\<^verbatim>\<open>utils/userStateManager.ts\<close>). All definitions come first, the
  properties follow.

  Conventions. A JavaScript string is a \<^typ>\<open>string\<close>; a JavaScript number is a
  \<^typ>\<open>rat\<close> where fractions can occur and a \<^typ>\<open>nat\<close> or
  \<^typ>\<open>int\<close> where the code only counts (rounding of doubles, NaN and the
  infinities are not modelled). A promise that may reject, and a call that may throw, has
  a result of a sum type: \<open>Inl\<close> carries the error.
\<close>

section \<open>JavaScript strings and values\<close>

text \<open>
  \<^verbatim>\<open>String.prototype.trim\<close> removes white space and line terminators from both
  ends. Of the code points ECMAScript lists, those that fit a \<^typ>\<open>char\<close> are TAB,
  LF, VT, FF, CR, SP and NBSP.
\<close>

definition isWhiteSpace :: "char \<Rightarrow> bool" where
  "isWhiteSpace c =
     (c = CHR 0x09 \<or> c = CHR 0x0A \<or> c = CHR 0x0B \<or> c = CHR 0x0C \<or> c = CHR 0x0D
      \<or> c = CHR 0x20 \<or> c = CHR 0xA0)"

definition trim :: "string \<Rightarrow> string" where
  "trim s = rev (dropWhile isWhiteSpace (rev (dropWhile isWhiteSpace s)))"

text \<open>\<^verbatim>\<open>Array.prototype.join\<close> with a separator.\<close>

fun join :: "string \<Rightarrow> string list \<Rightarrow> string" where
  "join sep [] = []"
| "join sep [x] = x"
| "join sep (x # y # ys) = x @ sep @ join sep (y # ys)"

text \<open>
  A value of type \<^verbatim>\<open>any\<close>. \<open>JUndefined\<close> is the value of a missing property.
  An object is the list of its properties, with distinct names.
\<close>

datatype js_value =
    JUndefined
  | JNull
  | JBool bool
  | JNumber rat
  | JString string
  | JArray "js_value list"
  | JObject "(string \<times> js_value) list"

text \<open>
  The two built-ins \<^verbatim>\<open>normalizeOutput\<close> calls. \<^verbatim>\<open>JSON.stringify\<close> may throw
  (\<open>None\<close>); \<^verbatim>\<open>String\<close> is fixed on the values whose text the language fixes and
  a parameter on numbers, arrays and objects.
\<close>

record js_builtins =
  JSON_stringify :: "js_value \<Rightarrow> string option"
  String_other :: "js_value \<Rightarrow> string"

definition String_js :: "js_builtins \<Rightarrow> js_value \<Rightarrow> string" where
  "String_js B v =
     (case v of
        JUndefined \<Rightarrow> ''undefined''
      | JNull \<Rightarrow> ''null''
      | JBool b \<Rightarrow> (if b then ''true'' else ''false'')
      | JString s \<Rightarrow> s
      | _ \<Rightarrow> String_other B v)"

text \<open>The truth value of an optional string in a condition: absent and empty are false.\<close>

definition truthy_str :: "string option \<Rightarrow> bool" where
  "truthy_str e = (case e of None \<Rightarrow> False | Some s \<Rightarrow> s \<noteq> [])"

text \<open>The truth value of a JavaScript value in a condition, and property access.\<close>

definition truthy :: "js_value \<Rightarrow> bool" where
  "truthy v =
     (case v of
        JUndefined \<Rightarrow> False
      | JNull \<Rightarrow> False
      | JBool b \<Rightarrow> b
      | JNumber n \<Rightarrow> n \<noteq> 0
      | JString s \<Rightarrow> s \<noteq> []
      | JArray xs \<Rightarrow> True
      | JObject kvs \<Rightarrow> True)"

text \<open>
  \<open>field v k\<close> is \<^verbatim>\<open>v.k\<close> on a value that is neither \<^verbatim>\<open>null\<close> nor
  \<^verbatim>\<open>undefined\<close> (on those the access throws, and every caller below tests for them
  first): a missing property, and any property of a primitive or of an array that these
  sources ask for, is \<^verbatim>\<open>undefined\<close>.
\<close>

definition field :: "js_value \<Rightarrow> string \<Rightarrow> js_value" where
  "field v k =
     (case v of
        JObject kvs \<Rightarrow> (case map_of kvs k of Some x \<Rightarrow> x | None \<Rightarrow> JUndefined)
      | _ \<Rightarrow> JUndefined)"

text \<open>An optional string as a value: a missing one is \<^verbatim>\<open>undefined\<close>.\<close>

definition optStr :: "string option \<Rightarrow> js_value" where
  "optStr x = (case x of None \<Rightarrow> JUndefined | Some s \<Rightarrow> JString s)"

section \<open>Execution sandbox\<close>

text \<open>
  The runner's interface \<^verbatim>\<open>TestCase\<close> declares the first three fields, the
  first two as strings. The test cases it is given are the problem's own objects, which
  may also declare \<^verbatim>\<open>points\<close>; the runner never reads that field.
\<close>

record TestCase =
  input :: string
  expectedOutput :: string
  description :: "string option"
  points :: "rat option"

record ExecutionResult =
  passed :: bool
  executionTime :: int
  "output" :: string
  error :: "string option"
  testCase :: TestCase

text \<open>
  What the runners build themselves:
  \<^verbatim>\<open>{ stdout: string; result: undefined; error?: string }\<close>.
\<close>

definition runResult :: "string \<Rightarrow> string option \<Rightarrow> js_value" where
  "runResult out err =
     JObject [(''stdout'', JString out), (''result'', JUndefined), (''error'', optStr err)]"

text \<open>
  What the participant's JavaScript does. Its text is pasted into the body of the
  function that \<^verbatim>\<open>new Function\<close> builds, in front of the runner's own
  \<^verbatim>\<open>return\<close>. It runs to the end having logged some lines; it throws having logged
  some lines (the string is \<^verbatim>\<open>String(e && e.message || e)\<close>, empty for
  \<^verbatim>\<open>throw ""\<close>); it returns a value of its own from that function (a
  \<^verbatim>\<open>return\<close> at the top level of the text), and that value is what the runner
  hands back (\<^verbatim>\<open>undefined\<close> for a bare \<^verbatim>\<open>return\<close>); or the wrapped text does
  not compile, or the runner's own handler throws, and the outer handler reports the
  message. \<open>JsReturned v\<close> also stands for any other way in which the text makes the
  runner hand back \<open>v\<close>, so that every value can be handed back. Values are those of
  \<^typ>\<open>js_value\<close>: none of their properties is a function. A text that never ends
  gives no result at all and has no value here.
\<close>

datatype js_run =
    JsCompleted "string list"
  | JsThrew "string list" string
  | JsReturned js_value
  | JsRejected string

definition runJavaScriptUserCode :: "js_run \<Rightarrow> js_value" where
  "runJavaScriptUserCode b =
     (case b of
        JsCompleted buffer \<Rightarrow> runResult (join [CHR 0x0A] buffer) None
      | JsThrew buffer msg \<Rightarrow> runResult (join [CHR 0x0A] buffer) (Some msg)
      | JsReturned v \<Rightarrow> v
      | JsRejected msg \<Rightarrow> runResult [] (Some msg))"

text \<open>
  What the participant's Python does under Pyodide: the interpreter does not load; the
  program ends and the epilogue stores the captured text; the program raises, the epilogue
  is skipped and \<^verbatim>\<open>__captured_out\<close> holds what an earlier run left (the second
  string); or reading \<^verbatim>\<open>__captured_out\<close> back fails. The Python text runs inside
  the interpreter, so the value handed back is always the runner's own.
\<close>

datatype py_run =
    PyLoadFailed string
  | PyCompleted string
  | PyRaised string string
  | PyReadFailed string

definition runPythonUserCode :: "py_run \<Rightarrow> js_value" where
  "runPythonUserCode b =
     (case b of
        PyLoadFailed msg \<Rightarrow> runResult [] (Some msg)
      | PyCompleted captured \<Rightarrow> runResult (trim captured) None
      | PyRaised msg stale \<Rightarrow> runResult (trim stale) (Some msg)
      | PyReadFailed msg \<Rightarrow> runResult [] (Some msg))"

definition normalizeOutput :: "js_builtins \<Rightarrow> js_value \<Rightarrow> string" where
  "normalizeOutput B v =
     (case v of
        JArray xs \<Rightarrow> (case JSON_stringify B v of Some s \<Rightarrow> s | None \<Rightarrow> String_js B v)
      | JUndefined \<Rightarrow> String_js B v
      | JNull \<Rightarrow> String_js B v
      | JObject kvs \<Rightarrow> (case JSON_stringify B v of Some s \<Rightarrow> s | None \<Rightarrow> String_js B v)
      | JString s \<Rightarrow> s
      | _ \<Rightarrow> (case JSON_stringify B v of Some s \<Rightarrow> s | None \<Rightarrow> String_js B v))"

text \<open>
  The sandbox and what it runs: \<^verbatim>\<open>isPythonReady\<close>, the behaviour of the code
  (first argument) on the input of a test case (second argument, the only part of the
  test case the runners inject) under either runtime, the two readings of the clock, and
  the message the engine gives a \<^verbatim>\<open>TypeError\<close>.
\<close>

record sandbox =
  isPythonReady :: bool
  builtins :: js_builtins
  jsBehaviour :: "string \<Rightarrow> string \<Rightarrow> js_run"
  pyBehaviour :: "string \<Rightarrow> string \<Rightarrow> py_run"
  startTime :: int
  endTime :: int
  typeErrorText :: string

text \<open>The handler of \<^verbatim>\<open>executeTestCase\<close>: a failed result that carries the message.\<close>

definition failedResult :: "sandbox \<Rightarrow> string \<Rightarrow> TestCase \<Rightarrow> ExecutionResult" where
  "failedResult S msg tc =
     \<lparr>passed = False, executionTime = endTime S - startTime S, output = [],
      error = Some msg, testCase = tc\<rparr>"

text \<open>\<^verbatim>\<open>result.stdout || ''\<close>, and whether a value is a string.\<close>

definition stdoutOf :: "js_value \<Rightarrow> js_value" where
  "stdoutOf r = (if truthy (field r ''stdout'') then field r ''stdout'' else JString [])"

definition isText :: "js_value \<Rightarrow> bool" where
  "isText v = (case v of JString s \<Rightarrow> True | _ \<Rightarrow> False)"

text \<open>
  The statements that both branches of \<^verbatim>\<open>executeTestCase\<close> repeat after the call
  of their runner, up to the \<^verbatim>\<open>return\<close> of the \<^verbatim>\<open>try\<close> block, on the value
  \<open>r\<close> the runner handed back. They throw a \<^verbatim>\<open>TypeError\<close> (\<open>Inl\<close>) at
  \<^verbatim>\<open>result.result\<close> when \<open>r\<close> is \<^verbatim>\<open>undefined\<close> or \<^verbatim>\<open>null\<close>, and at
  \<^verbatim>\<open>output.trim()\<close> when the output is not a string.
\<close>

definition gradeRun :: "sandbox \<Rightarrow> js_value \<Rightarrow> TestCase \<Rightarrow> string + ExecutionResult" where
  "gradeRun S r tc =
     (if r = JUndefined \<or> r = JNull then Inl (typeErrorText S)
      else
        let actualResult = normalizeOutput (builtins S) (field r ''result'');
            actualStdout = stdoutOf r;
            expected = trim (expectedOutput tc);
            out0 = (if truthy actualStdout then actualStdout else JString actualResult);
            passed0 = (actualResult = expected \<or> actualStdout = JString expected);
            out1 = (if truthy (field r ''error'') then field r ''error'' else out0);
            passed1 = (if truthy (field r ''error'') then False else passed0)
        in (case out1 of
              JString s \<Rightarrow>
                Inr \<lparr>passed = passed1, executionTime = endTime S - startTime S,
                     output = trim s, error = None, testCase = tc\<rparr>
            | _ \<Rightarrow> Inl (typeErrorText S)))"

text \<open>The \<^verbatim>\<open>try\<close> block of \<^verbatim>\<open>executeTestCase\<close>, and the function with its handler.\<close>

definition tryExecute :: "sandbox \<Rightarrow> string \<Rightarrow> string \<Rightarrow> TestCase \<Rightarrow> string + ExecutionResult" where
  "tryExecute S code language tc =
     (if language = ''python'' then
        (if \<not> isPythonReady S then Inl ''Python execution environment not available''
         else gradeRun S (runPythonUserCode (pyBehaviour S code (input tc))) tc)
      else if language = ''javascript'' then
        gradeRun S (runJavaScriptUserCode (jsBehaviour S code (input tc))) tc
      else Inl (''Unsupported language: '' @ language))"

definition executeTestCase :: "sandbox \<Rightarrow> string \<Rightarrow> string \<Rightarrow> TestCase \<Rightarrow> ExecutionResult" where
  "executeTestCase S code language tc =
     (case tryExecute S code language tc of
        Inr res \<Rightarrow> res
      | Inl msg \<Rightarrow> failedResult S msg tc)"

text \<open>
  \<^verbatim>\<open>runCode\<close> runs the test cases in order. \<^verbatim>\<open>executeTestCase\<close> handles every
  error itself, so the handler of \<^verbatim>\<open>runCode\<close> is never entered.
\<close>

definition runCode :: "sandbox \<Rightarrow> string \<Rightarrow> string \<Rightarrow> TestCase list \<Rightarrow> ExecutionResult list" where
  "runCode S code language testCases = map (executeTestCase S code language) testCases"



section \<open>Key-value persistence\<close>

definition startsWith :: "string \<Rightarrow> string \<Rightarrow> bool" where
  "startsWith s p = (take (length p) s = p)"

fun includesStr :: "string \<Rightarrow> string \<Rightarrow> bool" where
  "includesStr [] pat = (pat = [])"
| "includesStr (c # cs) pat = (startsWith (c # cs) pat \<or> includesStr cs pat)"

text \<open>
  \<^verbatim>\<open>localStorage\<close> holds strings under string keys, enumerable by index
  (\<^verbatim>\<open>key(i)\<close>, \<^verbatim>\<open>length\<close>): an association list with distinct keys. A stored
  string is either a JSON text, which \<^verbatim>\<open>JSON.parse\<close> reads as the value it
  denotes (\<open>Json v\<close>, with \<open>v\<close> free of \<^verbatim>\<open>undefined\<close>), or a text that
  \<^verbatim>\<open>JSON.parse\<close> rejects (\<open>Text s\<close>; the empty string is one). A JSON text is
  never empty.
\<close>

datatype item = Json js_value | Text string

text \<open>
  What \<^verbatim>\<open>JSON.stringify\<close> keeps of a value: a property whose value is
  \<^verbatim>\<open>undefined\<close> is left out of its object, and an \<^verbatim>\<open>undefined\<close> element of an
  array is written as \<^verbatim>\<open>null\<close>. The text written for \<open>v\<close> denotes
  \<open>serialised v\<close>. For \<^verbatim>\<open>undefined\<close> itself \<^verbatim>\<open>JSON.stringify\<close> returns
  \<^verbatim>\<open>undefined\<close>, which \<^verbatim>\<open>setItem\<close> stores as the text \<open>undefined\<close>.
\<close>

primrec serialised :: "js_value \<Rightarrow> js_value" where
  "serialised JUndefined = JUndefined"
| "serialised JNull = JNull"
| "serialised (JBool b) = JBool b"
| "serialised (JNumber n) = JNumber n"
| "serialised (JString s) = JString s"
| "serialised (JArray xs) =
     JArray (map (\<lambda>x. if x = JUndefined then JNull else x) (map serialised xs))"
| "serialised (JObject kvs) =
     JObject (filter (\<lambda>kv. snd kv \<noteq> JUndefined) (map (map_prod id serialised) kvs))"

definition stringify :: "js_value \<Rightarrow> item" where
  "stringify v = (if v = JUndefined then Text ''undefined'' else Json (serialised v))"

type_synonym localStorage = "(string \<times> item) list"

definition getItem :: "localStorage \<Rightarrow> string \<Rightarrow> item option" where
  "getItem st k = map_of st k"

definition removeItem :: "string \<Rightarrow> localStorage \<Rightarrow> localStorage" where
  "removeItem k st = filter (\<lambda>kv. fst kv \<noteq> k) st"

definition setItem :: "string \<Rightarrow> item \<Rightarrow> localStorage \<Rightarrow> localStorage" where
  "setItem k v st =
     (if k \<in> set (map fst st)
      then map (\<lambda>kv. if fst kv = k then (k, v) else kv) st
      else st @ [(k, v)])"

text \<open>A stored string in a condition: a missing entry and the empty string are false.\<close>

definition truthy_item :: "item option \<Rightarrow> bool" where
  "truthy_item i = (case i of None \<Rightarrow> False | Some (Json v) \<Rightarrow> True | Some (Text s) \<Rightarrow> s \<noteq> [])"

text \<open>\<^verbatim>\<open>JSON.parse\<close> of a stored string; \<open>None\<close> when it throws.\<close>

definition JSON_parse :: "item \<Rightarrow> js_value option" where
  "JSON_parse i = (case i of Json v \<Rightarrow> Some v | Text s \<Rightarrow> None)"

section \<open>Session controller: scoring a completed problem\<close>

text \<open>
  The part of a backend problem that \<^verbatim>\<open>runCode\<close> and \<^verbatim>\<open>markProblemDone\<close> read.
  \<open>testCases = None\<close> stands for a missing \<^verbatim>\<open>testCases\<close> property;
  \<open>harness\<close> is the trimmed harness text chosen for the current language (empty when the
  problem has none).
\<close>

record Problem =
  problemId :: string
  title :: string
  testCases :: "TestCase list option"
  harness :: string

record ProblemResult =
  pr_problemId :: string
  pr_problemTitle :: string
  score :: rat
  pr_language :: string
  pr_code :: string
  testResults :: "ExecutionResult list"

text \<open>\<^verbatim>\<open>Number(tc.points) || 0\<close>: an undeclared value is NaN, which is false.\<close>

definition pointsOf :: "TestCase \<Rightarrow> rat" where
  "pointsOf tc = (case points tc of None \<Rightarrow> 0 | Some p \<Rightarrow> p)"

text \<open>\<^verbatim>\<open>ptsArray[idx] || 0\<close>: an index out of range reads \<^verbatim>\<open>undefined\<close>.\<close>

definition ptsAt :: "rat list \<Rightarrow> nat \<Rightarrow> rat" where
  "ptsAt ptsArray idx = (if idx < length ptsArray then ptsArray ! idx else 0)"

definition ptsArrayOf :: "Problem \<Rightarrow> rat list" where
  "ptsArrayOf problem = (case testCases problem of Some tcs \<Rightarrow> map pointsOf tcs | None \<Rightarrow> [])"

text \<open>The \<^verbatim>\<open>reduce\<close> over \<^verbatim>\<open>safeResults\<close> with its index.\<close>

definition scoreOf :: "rat list \<Rightarrow> ExecutionResult list \<Rightarrow> rat" where
  "scoreOf ptsArray safeResults =
     foldl (\<lambda>sum ri.
              let pts = (if length ptsArray > 0 then ptsAt ptsArray (snd ri)
                         else 100 / of_nat (max 1 (length safeResults)))
              in sum + (if passed (fst ri) then pts else 0))
           0 (zip safeResults [0 ..< length safeResults])"

definition perProblemMax :: "rat list \<Rightarrow> rat" where
  "perProblemMax ptsArray = (if length ptsArray > 0 then foldl (+) 0 ptsArray else 100)"

text \<open>The code handed to the sandbox: the participant's code followed by the harness.\<close>

definition combinedCode :: "string \<Rightarrow> string \<Rightarrow> string \<Rightarrow> string" where
  "combinedCode code language harnessToUse =
     (if harnessToUse \<noteq> [] then
        (if language = ''javascript'' \<or> language = ''cpp'' \<or> language = ''java'' then
           code @ [CHR 0x0A] @ ''// --- HARNESS START ---'' @ [CHR 0x0A] @ harnessToUse
             @ [CHR 0x0A] @ ''// --- HARNESS END ---''
         else if language = ''python'' then
           code @ [CHR 0x0A] @ ''# --- HARNESS START ---'' @ [CHR 0x0A] @ harnessToUse
             @ [CHR 0x0A] @ ''# --- HARNESS END ---''
         else code)
      else code)"

text \<open>
  The page's \<^verbatim>\<open>runCode\<close>: \<open>None\<close> is \<^verbatim>\<open>undefined\<close>, returned when there is no
  problem or no code.
\<close>

definition solverRunCode ::
  "sandbox \<Rightarrow> Problem option \<Rightarrow> string \<Rightarrow> string \<Rightarrow> ExecutionResult list option" where
  "solverRunCode S problem code language =
     (case problem of
        None \<Rightarrow> None
      | Some p \<Rightarrow>
          if trim code = [] then None
          else Some (runCode S (combinedCode code language (harness p)) language
                       (case testCases p of Some tcs \<Rightarrow> tcs | None \<Rightarrow> [])))"

text \<open>
  \<^verbatim>\<open>markProblemDone\<close> up to the result it appends to the results list: \<open>None\<close> when
  it only shows the message that code is missing. \<open>shown\<close> is the state
  \<^verbatim>\<open>testResults\<close> of the page.
\<close>

definition markProblemDone ::
  "sandbox \<Rightarrow> Problem option \<Rightarrow> string \<Rightarrow> string \<Rightarrow> ExecutionResult list \<Rightarrow> ProblemResult option" where
  "markProblemDone S problem code language shown =
     (case problem of
        None \<Rightarrow> None
      | Some p \<Rightarrow>
          if trim code = [] then None
          else
            let resultsToUse = (if length shown = 0 then solverRunCode S problem code language
                                else Some shown);
                safeResults = (case resultsToUse of Some rs \<Rightarrow> rs | None \<Rightarrow> []);
                ptsArray = ptsArrayOf p
            in Some \<lparr>pr_problemId = problemId p, pr_problemTitle = title p,
                     score = scoreOf ptsArray safeResults, pr_language = language,
                     pr_code = code, testResults = safeResults\<rparr>)"

section \<open>Session controller: submitting the final result\<close>

text \<open>A thrown \<^verbatim>\<open>Error\<close>: its \<^verbatim>\<open>name\<close> and its \<^verbatim>\<open>message\<close>.\<close>

record thrown =
  err_name :: string
  err_message :: string

text \<open>
  What \<^verbatim>\<open>fetch\<close> does on one attempt: it rejects; it resolves with an
  acknowledged response whose body parses; it resolves with an acknowledged response whose
  body \<^verbatim>\<open>response.json()\<close> rejects; or it resolves with a response that is not
  \<^verbatim>\<open>ok\<close>, whose body is a stored-text value (\<open>None\<close> when reading the text fails).
\<close>

datatype fetch_outcome =
    FetchRejected thrown
  | ResponseOk
  | ResponseOkBadBody thrown
  | ResponseNotOk "item option"

text \<open>
  What the closure of one render sees: the connectivity flag, the user and the route, the
  remaining fields of a freshly computed payload, the coercions that normalise a stored
  payload (they throw on a malformed one), and the answer of the server to the attempt made
  at each retry count.
\<close>

record submit_ctx =
  internetOnline :: bool
  userId :: "string option"
  routeId :: "string option"
  freshRest :: "(string \<times> js_value) list"
  normaliseStored :: "js_value \<Rightarrow> thrown + js_value"
  respond :: "nat \<Rightarrow> fetch_outcome"
  submitBuiltins :: js_builtins

datatype toast =
    TurnOnInternet
  | MissingInfo
  | Submitted
  | Retrying string nat nat
  | GaveUp string
  | CannotConnect
  | ServerErrorLater

text \<open>
  What one call chain does to the world, in order: messages, POST requests, and the three
  timers (the retry, the navigation after success, the navigation after giving up), each
  with its delay in milliseconds.
\<close>

datatype effect =
    Toast toast
  | Post js_value
  | HideFinalSubmission
  | NavigateAfter nat
  | RetryAfter nat
  | HideAndNavigateAfter nat

definition maxRetries :: nat where
  "maxRetries = 3"

text \<open>The stored final result, or \<^verbatim>\<open>{}\<close> when it is missing or does not parse.\<close>

definition loadFinalResult :: "localStorage \<Rightarrow> js_value" where
  "loadFinalResult st =
     (let stored = getItem st ''final_contest_result''
      in if truthy_item stored
         then (case JSON_parse (the stored) of Some v \<Rightarrow> v | None \<Rightarrow> JObject [])
         else JObject [])"

definition buildPayload :: "submit_ctx \<Rightarrow> localStorage \<Rightarrow> thrown + js_value" where
  "buildPayload C st =
     (let finalResult = loadFinalResult st
      in if \<not> truthy finalResult \<or> \<not> truthy (field finalResult ''userId'')
            \<or> \<not> truthy (field finalResult ''contestId'')
         then Inr (JObject ([(''userId'', optStr (userId C)), (''contestId'', optStr (routeId C))]
                            @ freshRest C))
         else normaliseStored C finalResult)"

text \<open>The message of the error thrown for a response that is not \<^verbatim>\<open>ok\<close>.\<close>

definition errorMessageOf :: "js_builtins \<Rightarrow> item option \<Rightarrow> string" where
  "errorMessageOf B body =
     (case body of
        None \<Rightarrow> ''Server error''
      | Some (Text t) \<Rightarrow> (if t \<noteq> [] then t else ''Server error'')
      | Some (Json data) \<Rightarrow>
          (if data = JNull then ''Server error''
           else if truthy (field data ''message'') then String_js B (field data ''message'')
           else ''Server error''))"

text \<open>The \<^verbatim>\<open>try\<close> block of one invocation: it ends, or it throws.\<close>

datatype attempt_result = Done "effect list" | Failed "effect list" thrown

definition attempt :: "submit_ctx \<Rightarrow> localStorage \<Rightarrow> nat \<Rightarrow> attempt_result" where
  "attempt C st retryCount =
     (case buildPayload C st of
        Inl e \<Rightarrow> Failed [] e
      | Inr finalResult \<Rightarrow>
          if \<not> truthy (field finalResult ''userId'') \<or> \<not> truthy (field finalResult ''contestId'')
          then Done [Toast MissingInfo]
          else
            (case respond C retryCount of
               FetchRejected e \<Rightarrow> Failed [Post finalResult] e
             | ResponseOk \<Rightarrow>
                 Done [Post finalResult, Toast Submitted, HideFinalSubmission, NavigateAfter 2000]
             | ResponseOkBadBody e \<Rightarrow> Failed [Post finalResult] e
             | ResponseNotOk body \<Rightarrow>
                 Failed [Post finalResult]
                   \<lparr>err_name = ''Error'', err_message = errorMessageOf (submitBuiltins C) body\<rparr>))"

definition messageOr :: "thrown \<Rightarrow> string" where
  "messageOr e = (if err_message e \<noteq> [] then err_message e else ''Unknown error'')"

text \<open>
  \<^verbatim>\<open>submitFinalResults(retryCount)\<close>. The retry, scheduled by
  \<^verbatim>\<open>setTimeout\<close>, calls the function of the same closure again; its effects follow
  the timer in the trace. The function reads \<^verbatim>\<open>localStorage\<close> and never writes it.
\<close>

function submitFinalResults :: "submit_ctx \<Rightarrow> localStorage \<Rightarrow> nat \<Rightarrow> effect list \<times> localStorage" where
  "submitFinalResults C st retryCount =
     (if \<not> internetOnline C then ([Toast TurnOnInternet], st)
      else
        (case attempt C st retryCount of
           Done effs \<Rightarrow> (effs, st)
         | Failed effs e \<Rightarrow>
             if retryCount < maxRetries - 1 then
               (let delay = 2 ^ retryCount * 1000;
                    next = submitFinalResults C st (retryCount + 1)
                in (effs @ [Toast (Retrying (messageOr e) (delay div 1000) (retryCount + 1)),
                            RetryAfter delay] @ fst next,
                    snd next))
             else
               (effs @ [Toast (GaveUp (messageOr e)),
                        (if err_name e = ''TypeError'' \<and> includesStr (err_message e) ''fetch''
                         then Toast CannotConnect else Toast ServerErrorLater),
                        HideAndNavigateAfter 3000],
                st)))"
  by pat_completeness auto
termination
  by (relation "measure (\<lambda>(C, st, retryCount). maxRetries - retryCount)") auto

text \<open>Reading a trace: the POST requests and the delays of the retry timers.\<close>

fun isPost :: "effect \<Rightarrow> bool" where
  "isPost (Post p) = True"
| "isPost _ = False"

fun retryDelays :: "effect list \<Rightarrow> nat list" where
  "retryDelays [] = []"
| "retryDelays (RetryAfter d # es) = d # retryDelays es"
| "retryDelays (e # es) = retryDelays es"

definition postCount :: "effect list \<Rightarrow> nat" where
  "postCount es = length (filter isPost es)"

text \<open>
  A trace made of the traces of successive invocations: between the trace of invocation
  \<open>k\<close> and that of invocation \<open>k + 1\<close> stands the retry timer of \<open>2 ^ k\<close> seconds.
\<close>

fun chain :: "nat \<Rightarrow> effect list list \<Rightarrow> effect list" where
  "chain k [] = []"
| "chain k [seg] = seg"
| "chain k (seg # next # segs) = seg @ [RetryAfter (2 ^ k * 1000)] @ chain (Suc k) (next # segs)"

text \<open>The trace of one invocation: at most one POST request, and no retry timer.\<close>

definition oneAttempt :: "effect list \<Rightarrow> bool" where
  "oneAttempt seg = (postCount seg \<le> 1 \<and> retryDelays seg = [])"

section \<open>Preparation pipeline\<close>

datatype stage = Idle | Downloading | Preparing | Ready | Error

record PreparationProgress =
  stage :: stage
  progress :: nat
  message :: string
  details :: string

text \<open>A \<^verbatim>\<open>Partial<PreparationProgress>\<close>: the properties an update names.\<close>

record ProgressUpdate =
  u_stage :: "stage option"
  u_progress :: "nat option"
  u_message :: "string option"
  u_details :: "string option"

text \<open>
  The singleton: \<^verbatim>\<open>this.progress\<close>, the guard \<^verbatim>\<open>isPreparing\<close>, the
  persistence it writes, and \<open>published\<close>, the values \<^verbatim>\<open>updateProgress\<close> has
  handed to the subscribers, oldest first (each subscriber's exception is caught inside
  the loop, so the sequence is the same for all of them).
\<close>

record ContestPreparation =
  progressNow :: PreparationProgress
  isPreparing :: bool
  published :: "PreparationProgress list"
  prepStorage :: localStorage

definition mergeProgress :: "PreparationProgress \<Rightarrow> ProgressUpdate \<Rightarrow> PreparationProgress" where
  "mergeProgress p u =
     \<lparr>stage = (case u_stage u of Some x \<Rightarrow> x | None \<Rightarrow> stage p),
      progress = (case u_progress u of Some x \<Rightarrow> x | None \<Rightarrow> progress p),
      message = (case u_message u of Some x \<Rightarrow> x | None \<Rightarrow> message p),
      details = (case u_details u of Some x \<Rightarrow> x | None \<Rightarrow> details p)\<rparr>"

definition updateProgress :: "ProgressUpdate \<Rightarrow> ContestPreparation \<Rightarrow> ContestPreparation" where
  "updateProgress u cp =
     (let p = mergeProgress (progressNow cp) u
      in cp\<lparr>progressNow := p, published := published cp @ [p]\<rparr>)"

text \<open>An update that leaves the stage as it is.\<close>

definition step :: "nat \<Rightarrow> string \<Rightarrow> string \<Rightarrow> ProgressUpdate" where
  "step n m d = \<lparr>u_stage = None, u_progress = Some n, u_message = Some m, u_details = Some d\<rparr>"

text \<open>
  What a run meets: the contest id, whether \<^verbatim>\<open>preloadPythonEnvironment\<close> answers
  \<^verbatim>\<open>true\<close> (it never throws), the message of the exception
  \<^verbatim>\<open>localStorage.setItem\<close> throws if it does (uncaught in
  \<^verbatim>\<open>finalizePreparation\<close>), and the time written with the flag.
\<close>

record prep_env =
  contestId :: "string option"
  pythonPreloadOk :: bool
  storageWriteFails :: "string option"
  preparedAt :: string

text \<open>
  An asynchronous method is the list of its synchronous actions, in order; between two
  of them the method may be suspended at an \<^verbatim>\<open>await\<close>. An action throws
  (\<open>Inl\<close>) or gives the next state.
\<close>

type_synonym action = "ContestPreparation \<Rightarrow> string + ContestPreparation"

definition publish :: "ProgressUpdate \<Rightarrow> action" where
  "publish u cp = Inr (updateProgress u cp)"

definition downloadPythonLibraries :: "action list" where
  "downloadPythonLibraries =
     [publish (step 10 ''Downloading Python libraries...''
                 ''Setting up Pyodide for offline Python execution''),
      publish (step 30 ''Python libraries downloaded'' ''Pyodide loaded successfully'')]"

definition downloadJavaScriptLibraries :: "action list" where
  "downloadJavaScriptLibraries =
     [publish (step 40 ''Downloading JavaScript libraries...''
                 ''Setting up offline JavaScript execution environment''),
      publish (step 60 ''JavaScript libraries downloaded'' ''Offline JS execution ready'')]"

text \<open>
  Between its two updates \<^verbatim>\<open>downloadContestProblems\<close> resolves the problem set from
  the cache or the network; all of that is inside \<^verbatim>\<open>try\<close> blocks with empty handlers,
  publishes nothing and touches only the cached problem keys, which no property below
  reads.
\<close>

definition downloadContestProblems :: "prep_env \<Rightarrow> action list" where
  "downloadContestProblems E =
     [publish (step 70 ''Downloading contest problems...''
                 ''Loading DSA problems and test cases''),
      publish (step 85 ''Contest problems loaded''
                 ''Problems and test cases ready for offline use'')]"

text \<open>
  \<^verbatim>\<open>preloadPythonEnvironment\<close> records its outcome under \<^verbatim>\<open>python_ready\<close>;
  an exception of that \<^verbatim>\<open>setItem\<close> is caught and the key is left as it is.
\<close>

definition recordPythonReady :: "prep_env \<Rightarrow> action" where
  "recordPythonReady E cp =
     Inr (case storageWriteFails E of
            None \<Rightarrow> cp\<lparr>prepStorage := setItem ''python_ready'' (Json (JBool (pythonPreloadOk E)))
                                      (prepStorage cp)\<rparr>
          | Some msg \<Rightarrow> cp)"

definition prepareOfflineEnvironment :: "prep_env \<Rightarrow> action list" where
  "prepareOfflineEnvironment E =
     [publish (step 90 ''Preparing offline environment...''
                 ''Setting up code execution sandbox''),
      publish (step 92 ''Initializing Python engine...''
                 ''Loading Pyodide for offline Python execution''),
      recordPythonReady E,
      publish (step (if pythonPreloadOk E then 94 else 90)
                 (if pythonPreloadOk E then ''Python engine ready''
                  else ''Python engine unavailable'')
                 (if pythonPreloadOk E then ''Pyodide initialized successfully''
                  else ''Pyodide failed to initialize'')),
      publish (step 95 ''Offline environment ready'' ''Code execution sandbox prepared'')]"

definition storePrepared :: "prep_env \<Rightarrow> action" where
  "storePrepared E cp =
     (case storageWriteFails E of
        Some msg \<Rightarrow> Inl msg
      | None \<Rightarrow>
          (case contestId E of
             Some cid \<Rightarrow>
               (if cid \<noteq> [] then
                  Inr (cp\<lparr>prepStorage :=
                           setItem (''contest_prepared_at_'' @ cid) (Text (preparedAt E))
                             (setItem (''contest_prepared_'' @ cid) (Json (JBool True))
                                (prepStorage cp))\<rparr>)
                else
                  Inr (cp\<lparr>prepStorage :=
                           setItem ''contest_prepared_at'' (Text (preparedAt E))
                             (setItem ''contest_prepared'' (Json (JBool True))
                                (prepStorage cp))\<rparr>))
           | None \<Rightarrow>
               Inr (cp\<lparr>prepStorage :=
                        setItem ''contest_prepared_at'' (Text (preparedAt E))
                          (setItem ''contest_prepared'' (Json (JBool True))
                             (prepStorage cp))\<rparr>)))"

definition finalizePreparation :: "prep_env \<Rightarrow> action list" where
  "finalizePreparation E =
     [publish (step 98 ''Finalizing preparation...'' ''Completing setup and verification''),
      storePrepared E]"

text \<open>The five stages inside the \<^verbatim>\<open>try\<close> block of \<^verbatim>\<open>prepareContest\<close>.\<close>

definition stages :: "prep_env \<Rightarrow> action list" where
  "stages E =
     downloadPythonLibraries @ downloadJavaScriptLibraries @ downloadContestProblems E
       @ prepareOfflineEnvironment E @ finalizePreparation E"

text \<open>
  Running actions in order stops at the first that throws; the state reached by then is
  kept, with the message.
\<close>

fun runActions :: "action list \<Rightarrow> ContestPreparation \<Rightarrow> (string \<times> ContestPreparation) + ContestPreparation" where
  "runActions [] cp = Inr cp"
| "runActions (a # as) cp =
     (case a cp of Inl msg \<Rightarrow> Inl (msg, cp) | Inr cp' \<Rightarrow> runActions as cp')"

text \<open>What \<^verbatim>\<open>prepareContest\<close> does after the guard, before the first stage.\<close>

definition enterPreparation :: "ContestPreparation \<Rightarrow> ContestPreparation" where
  "enterPreparation cp =
     updateProgress
       \<lparr>u_stage = Some Downloading, u_progress = Some 0,
        u_message = Some ''Starting contest preparation...'',
        u_details = Some ''Downloading required libraries and packages''\<rparr>
       (cp\<lparr>isPreparing := True\<rparr>)"

definition prepareContest :: "prep_env \<Rightarrow> ContestPreparation \<Rightarrow> bool \<times> ContestPreparation" where
  "prepareContest E cp =
     (if isPreparing cp then (False, cp)
      else
        (case runActions (stages E) (enterPreparation cp) of
           Inr cp1 \<Rightarrow>
             (True,
              (updateProgress
                 \<lparr>u_stage = Some Ready, u_progress = Some 100,
                  u_message = Some ''Contest preparation complete!'',
                  u_details = Some ''All systems ready. You can now turn off your internet and start the contest.''\<rparr>
                 cp1)\<lparr>isPreparing := False\<rparr>)
         | Inl (msg, cp1) \<Rightarrow>
             (False,
              (updateProgress
                 \<lparr>u_stage = Some Error, u_progress = Some 0,
                  u_message = Some ''Preparation failed'', u_details = Some msg\<rparr>
                 cp1)\<lparr>isPreparing := False\<rparr>)))"

text \<open>
  The state of a run that has been suspended after \<open>k\<close> actions of its stages: \<open>None\<close>
  when the run has thrown before.
\<close>

definition inFlight :: "prep_env \<Rightarrow> ContestPreparation \<Rightarrow> nat \<Rightarrow> ContestPreparation option" where
  "inFlight E cp k =
     (case runActions (take k (stages E)) (enterPreparation cp) of
        Inr cp' \<Rightarrow> Some cp'
      | Inl x \<Rightarrow> None)"

text \<open>The progress values one run has published.\<close>

definition runProgress :: "prep_env \<Rightarrow> ContestPreparation \<Rightarrow> nat list" where
  "runProgress E cp =
     map progress (drop (length (published cp)) (published (snd (prepareContest E cp))))"

section \<open>Connectivity monitor\<close>

datatype quality = Good | Poor | Offline

text \<open>
  \<^verbatim>\<open>InternetStatus\<close>; \<open>latency = None\<close> is an object without the property. Times
  are milliseconds.
\<close>

record InternetStatus =
  isOnline :: bool
  lastChecked :: int
  connectionQuality :: quality
  latency :: "int option"

text \<open>
  A subscriber: the identity of the function object, and what calling it does, which is
  to return (\<open>None\<close>) or to throw an error with a message.
\<close>

record subscriber =
  sub_id :: nat
  sub_throws :: "InternetStatus \<Rightarrow> string option"

text \<open>
  The singleton: its subscriber list and current status, and what can be observed of it:
  the calls made to subscribers (who, with what), the lines written by
  \<^verbatim>\<open>console.error\<close>, and the number of probes sent to the network.
\<close>

record InternetMonitor =
  callbacks :: "subscriber list"
  currentStatus :: InternetStatus
  invoked :: "(nat \<times> InternetStatus) list"
  consoleErrors :: "string list"
  probes :: nat

text \<open>Calling a subscriber: it returns, or it throws.\<close>

definition call :: "subscriber \<Rightarrow> InternetStatus \<Rightarrow> string + unit" where
  "call cb st = (case sub_throws cb st of Some msg \<Rightarrow> Inl msg | None \<Rightarrow> Inr ())"

text \<open>The body of the \<^verbatim>\<open>forEach\<close> in \<^verbatim>\<open>updateStatus\<close>, with its handler.\<close>

definition notify :: "InternetMonitor \<Rightarrow> subscriber \<Rightarrow> InternetMonitor" where
  "notify M cb =
     (let M1 = M\<lparr>invoked := invoked M @ [(sub_id cb, currentStatus M)]\<rparr>
      in case call cb (currentStatus M) of
           Inr u \<Rightarrow> M1
         | Inl msg \<Rightarrow> M1\<lparr>consoleErrors := consoleErrors M1 @ [msg]\<rparr>)"

text \<open>
  The spread \<^verbatim>\<open>{...this.currentStatus, ...newStatus}\<close>: every caller names the first
  three properties; \<^verbatim>\<open>latency\<close> is kept when the new status has none.
\<close>

definition mergeStatus :: "InternetStatus \<Rightarrow> InternetStatus \<Rightarrow> InternetStatus" where
  "mergeStatus old new =
     \<lparr>isOnline = isOnline new, lastChecked = lastChecked new,
      connectionQuality = connectionQuality new,
      latency = (case latency new of Some l \<Rightarrow> Some l | None \<Rightarrow> latency old)\<rparr>"

definition updateStatus :: "InternetMonitor \<Rightarrow> InternetStatus \<Rightarrow> InternetMonitor" where
  "updateStatus M newStatus =
     (let M1 = M\<lparr>currentStatus := mergeStatus (currentStatus M) newStatus\<rparr>
      in foldl notify M1 (callbacks M1))"

text \<open>
  \<^verbatim>\<open>subscribe\<close> pushes the callback; the function it returns removes the first
  occurrence of that callback.
\<close>

definition subscribe :: "InternetMonitor \<Rightarrow> subscriber \<Rightarrow> InternetMonitor" where
  "subscribe M cb = M\<lparr>callbacks := callbacks M @ [cb]\<rparr>"

fun removeFirst :: "nat \<Rightarrow> subscriber list \<Rightarrow> subscriber list" where
  "removeFirst i [] = []"
| "removeFirst i (c # cs) = (if sub_id c = i then cs else c # removeFirst i cs)"

definition unsubscribe :: "InternetMonitor \<Rightarrow> subscriber \<Rightarrow> InternetMonitor" where
  "unsubscribe M cb = M\<lparr>callbacks := removeFirst (sub_id cb) (callbacks M)\<rparr>"

text \<open>
  What one check meets: \<^verbatim>\<open>navigator.onLine\<close> (\<open>None\<close> when there is no
  \<^verbatim>\<open>navigator\<close>), whether \<^verbatim>\<open>fetch\<close> resolves or rejects (an abort after the
  three seconds is a rejection), and the readings of the clock before the probe, after
  it, and for \<^verbatim>\<open>lastChecked\<close>.
\<close>

record check_env =
  navigatorOnLine :: "bool option"
  fetchResult :: "string + unit"
  clockBefore :: int
  clockAfter :: int
  clockNow :: int

definition offlineStatus :: "check_env \<Rightarrow> InternetStatus" where
  "offlineStatus E =
     \<lparr>isOnline = False, lastChecked = clockNow E, connectionQuality = Offline, latency = None\<rparr>"

definition checkConnectivity ::
  "check_env \<Rightarrow> InternetMonitor \<Rightarrow> string + (InternetStatus \<times> InternetMonitor)" where
  "checkConnectivity E M =
     (if navigatorOnLine E = Some False then Inr (offlineStatus E, M)
      else
        (case fetchResult E of
           Inr u \<Rightarrow>
             (let l = clockAfter E - clockBefore E
              in Inr (\<lparr>isOnline = True, lastChecked = clockNow E,
                       connectionQuality = (if l < 1000 then Good else Poor),
                       latency = Some l\<rparr>,
                      M\<lparr>probes := probes M + 1\<rparr>))
         | Inl msg \<Rightarrow> Inr (offlineStatus E, M\<lparr>probes := probes M + 1\<rparr>)))"

definition performCheck ::
  "check_env \<Rightarrow> InternetMonitor \<Rightarrow> string + (InternetStatus \<times> InternetMonitor)" where
  "performCheck E M =
     (case checkConnectivity E M of
        Inl msg \<Rightarrow> Inl msg
      | Inr (status, M1) \<Rightarrow> Inr (status, updateStatus M1 status))"

section \<open>Session controller: persisting and restoring the session\<close>

text \<open>
  The state of the page that \<^verbatim>\<open>saveContestState\<close> writes. The entries of
  \<^verbatim>\<open>problemResults\<close> are the objects \<^verbatim>\<open>markProblemDone\<close> builds and those
  read back from the results list; a property of the former is \<^verbatim>\<open>undefined\<close>
  when the user or the problem has no id.
\<close>

record ContestSessionState =
  contestStarted :: bool
  currentProblemIndex :: rat
  problemResults :: "js_value list"
  contestCompleted :: bool
  timeLeft :: rat
  contestStartTime :: rat
  violationCount :: rat
  penaltyPoints :: rat

text \<open>The page: the session, and the two flags the restoring effect also sets.\<close>

record page =
  session :: ContestSessionState
  showFinalSubmission :: bool
  monitoring :: bool

definition saveContestState :: "ContestSessionState \<Rightarrow> localStorage \<Rightarrow> localStorage" where
  "saveContestState s st =
     setItem ''contest_state''
       (stringify (JObject
          [(''contestStarted'', JBool (contestStarted s)),
           (''currentProblemIndex'', JNumber (currentProblemIndex s)),
           (''problemResults'', JArray (problemResults s)),
           (''contestCompleted'', JBool (contestCompleted s)),
           (''timeLeft'', JNumber (timeLeft s)),
           (''contestStartTime'', JNumber (contestStartTime s)),
           (''violationCount'', JNumber (violationCount s)),
           (''penaltyPoints'', JNumber (penaltyPoints s))]))
       st"

text \<open>
  \<^verbatim>\<open>v || d\<close> for a property the page declares as a number or as an array. A stored
  property of another type is read as missing.
\<close>

definition numberOr :: "js_value \<Rightarrow> rat \<Rightarrow> rat" where
  "numberOr v d = (case v of JNumber n \<Rightarrow> (if n \<noteq> 0 then n else d) | _ \<Rightarrow> d)"

definition arrayOr :: "js_value \<Rightarrow> js_value list \<Rightarrow> js_value list" where
  "arrayOr v d = (case v of JArray xs \<Rightarrow> xs | _ \<Rightarrow> d)"

text \<open>\<^verbatim>\<open>UserStateManager\<close>: the stored user.\<close>

definition getCurrentUserState :: "localStorage \<Rightarrow> js_value" where
  "getCurrentUserState st =
     (let stored = getItem st ''current_user_state''
      in if truthy_item stored
         then (case JSON_parse (the stored) of Some v \<Rightarrow> v | None \<Rightarrow> JNull)
         else JNull)"

text \<open>\<^verbatim>\<open>userState?.userId || null\<close>.\<close>

definition getCurrentUserId :: "localStorage \<Rightarrow> js_value" where
  "getCurrentUserId st =
     (let userState = getCurrentUserState st
      in if userState = JNull then JNull
         else if truthy (field userState ''userId'') then field userState ''userId''
         else JNull)"

definition isSameUser :: "localStorage \<Rightarrow> string \<Rightarrow> bool" where
  "isSameUser st uid = (getCurrentUserId st = JString uid)"

definition startContest :: "rat \<Rightarrow> page \<Rightarrow> localStorage \<Rightarrow> page \<times> localStorage" where
  "startContest now pg st =
     (pg\<lparr>session := (session pg)\<lparr>contestStarted := True, contestStartTime := now,
                                  problemResults := [], currentProblemIndex := 0,
                                  contestCompleted := False\<rparr>,
         showFinalSubmission := False, monitoring := True\<rparr>,
      removeItem ''final_contest_result'' (removeItem ''contest_results'' st))"

text \<open>\<^verbatim>\<open>setTimeLeft((prev) => prev > 0 ? prev : d)\<close>.\<close>

definition keepTimeOr :: "rat \<Rightarrow> page \<Rightarrow> page" where
  "keepTimeOr d pg =
     pg\<lparr>session := (session pg)\<lparr>timeLeft := (if timeLeft (session pg) > 0
                                               then timeLeft (session pg) else d)\<rparr>\<rparr>"

definition freshStart :: "rat \<Rightarrow> rat \<Rightarrow> page \<Rightarrow> localStorage \<Rightarrow> page \<times> localStorage" where
  "freshStart d now pg st =
     (if \<not> contestStarted (session pg) then startContest now (keepTimeOr d pg) st
      else (keepTimeOr d pg, st))"

text \<open>
  The effect that runs when the user is known: what it does to the page and to the
  persistence. The effect first starts \<^verbatim>\<open>initializeInternetMonitoring\<close>, which
  turns the monitoring on when the closure has a contest started and not completed (the
  manual connectivity check inside it is left out); \<open>restoreFor\<close> is the rest of the
  effect (the choice of the problem shown is left out). \<open>user\<close> is
  \<^verbatim>\<open>user?.id\<close>, \<open>now\<close> is \<^verbatim>\<open>Date.now()\<close>; \<open>pg\<close> is the page as the
  effect's closure sees it: in the render that mounts the page all of its state has the
  initial values, with \<^verbatim>\<open>timeLeft\<close> 0.
\<close>

definition initializeInternetMonitoring :: "page \<Rightarrow> page" where
  "initializeInternetMonitoring pg =
     (if contestStarted (session pg) \<and> \<not> contestCompleted (session pg)
      then pg\<lparr>monitoring := True\<rparr> else pg)"

definition restoreFor :: "string option \<Rightarrow> rat \<Rightarrow> page \<Rightarrow> localStorage \<Rightarrow> page \<times> localStorage" where
  "restoreFor user now pg st =
     (if truthy_str user \<and> isSameUser st (the user) then
        (let saved = getItem st ''contest_state''
         in if truthy_item saved then
              (case JSON_parse (the saved) of
                 None \<Rightarrow> freshStart 5400 now pg st
               | Some state \<Rightarrow>
                   if state = JNull then freshStart 5400 now pg st
                   else
                     (pg\<lparr>session :=
                           \<lparr>contestStarted = truthy (field state ''contestStarted''),
                            currentProblemIndex = numberOr (field state ''currentProblemIndex'') 0,
                            problemResults = arrayOr (field state ''problemResults'') [],
                            contestCompleted = truthy (field state ''contestCompleted''),
                            timeLeft = numberOr (field state ''timeLeft'')
                                         (if timeLeft (session pg) \<noteq> 0 then timeLeft (session pg) else 0),
                            contestStartTime = numberOr (field state ''contestStartTime'') now,
                            violationCount = numberOr (field state ''violationCount'') 0,
                            penaltyPoints = numberOr (field state ''penaltyPoints'') 0\<rparr>,
                         showFinalSubmission :=
                           (if truthy (field state ''contestCompleted'') then True
                            else showFinalSubmission pg),
                         monitoring :=
                           (if truthy (field state ''contestCompleted'') then monitoring pg
                            else if truthy (field state ''contestStarted'') then True
                            else monitoring pg)\<rparr>,
                      st))
            else freshStart 7200 now pg st)
      else if truthy_str user then freshStart 7200 now pg st
      else (pg, st))"

definition restoreSession :: "string option \<Rightarrow> rat \<Rightarrow> page \<Rightarrow> localStorage \<Rightarrow> page \<times> localStorage" where
  "restoreSession user now pg st = restoreFor user now (initializeInternetMonitoring pg) st"

section \<open>User state manager\<close>

definition setCurrentUserState :: "string \<Rightarrow> string \<Rightarrow> localStorage \<Rightarrow> localStorage" where
  "setCurrentUserState uid lastLogin st =
     setItem ''current_user_state''
       (stringify (JObject [(''userId'', JString uid), (''lastLogin'', JString lastLogin)])) st"

text \<open>The keys the loop of \<^verbatim>\<open>resetAllUserState\<close> collects.\<close>

definition userSpecific :: "string \<Rightarrow> bool" where
  "userSpecific key =
     (key \<noteq> [] \<and>
      (startsWith key ''contest_'' \<or> startsWith key ''user_'' \<or> startsWith key ''problem_''
       \<or> startsWith key ''submission_''))"

definition resetAllUserState :: "localStorage \<Rightarrow> localStorage" where
  "resetAllUserState st =
     (let st1 = removeItem ''internet_violations''
                  (removeItem ''final_contest_result''
                     (removeItem ''contest_results'' (removeItem ''contest_state'' st)));
          keysToRemove = filter userSpecific (map fst st1)
      in foldl (\<lambda>s key. removeItem key s) st1 keysToRemove)"

definition checkAndResetUserState :: "string \<Rightarrow> string \<Rightarrow> localStorage \<Rightarrow> bool \<times> localStorage" where
  "checkAndResetUserState newUserId lastLogin st =
     (let currentUserState = getCurrentUserState st
      in if \<not> truthy currentUserState then
           (True, setCurrentUserState newUserId lastLogin (resetAllUserState st))
         else if field currentUserState ''userId'' \<noteq> JString newUserId then
           (True, setCurrentUserState newUserId lastLogin (resetAllUserState st))
         else (False, st))"

text \<open>The keys the comment in \<^verbatim>\<open>resetAllUserState\<close> calls contest-related.\<close>

definition contestRelated :: "string \<Rightarrow> bool" where
  "contestRelated key =
     (key = ''contest_state'' \<or> key = ''contest_results'' \<or> key = ''final_contest_result''
      \<or> key = ''internet_violations'' \<or> userSpecific key)"

section \<open>Concrete inputs\<close>

text \<open>Inputs at which the properties below are evaluated.\<close>

definition demoBuiltins :: js_builtins where
  "demoBuiltins = \<lparr>JSON_stringify = (\<lambda>v. None), String_other = (\<lambda>v. ''[object Object]'')\<rparr>"

definition demoSandbox :: "js_run \<Rightarrow> py_run \<Rightarrow> sandbox" where
  "demoSandbox j p =
     \<lparr>isPythonReady = True, builtins = demoBuiltins, jsBehaviour = (\<lambda>code inp. j),
      pyBehaviour = (\<lambda>code inp. p), startTime = 0, endTime = 5,
      typeErrorText = ''Cannot read properties of undefined''\<rparr>"

definition demoTest :: TestCase where
  "demoTest = \<lparr>input = ''1 2 3'', expectedOutput = ''6'', description = None, points = None\<rparr>"

definition demoTestSum :: TestCase where
  "demoTestSum = \<lparr>input = ''4 5'', expectedOutput = ''9'', description = None, points = None\<rparr>"

definition demoProblem :: Problem where
  "demoProblem = \<lparr>problemId = ''p1'', title = ''Sum'', testCases = Some [demoTest, demoTestSum], harness = []\<rparr>"

definition demoSolver :: sandbox where
  "demoSolver =
     \<lparr>isPythonReady = True, builtins = demoBuiltins,
      jsBehaviour = (\<lambda>code inp. if inp = ''1 2 3'' then JsCompleted [''6''] else JsCompleted [''9'']),
      pyBehaviour = (\<lambda>code inp. PyCompleted []), startTime = 0, endTime = 5,
      typeErrorText = ''Cannot read properties of undefined''\<rparr>"

definition demoPreparation :: ContestPreparation where
  "demoPreparation =
     \<lparr>progressNow = \<lparr>stage = Idle, progress = 0, message = ''Ready to prepare contest'', details = []\<rparr>,
      isPreparing = False, published = [], prepStorage = []\<rparr>"

definition demoPrepEnv :: "bool \<Rightarrow> prep_env" where
  "demoPrepEnv ok = \<lparr>contestId = Some ''c1'', pythonPreloadOk = ok, storageWriteFails = None,
                      preparedAt = ''2025-01-01T00:00:00.000Z''\<rparr>"

definition demoStatus :: InternetStatus where
  "demoStatus = \<lparr>isOnline = True, lastChecked = 0, connectionQuality = Good, latency = None\<rparr>"

definition demoSubscriber :: subscriber where
  "demoSubscriber = \<lparr>sub_id = 7, sub_throws = (\<lambda>st. if isOnline st then None else Some ''offline!'')\<rparr>"

definition demoMonitor :: InternetMonitor where
  "demoMonitor = \<lparr>callbacks = [], currentStatus = demoStatus, invoked = [], consoleErrors = [], probes = 0\<rparr>"

definition demoCheckEnv :: "bool option \<Rightarrow> string + unit \<Rightarrow> int \<Rightarrow> check_env" where
  "demoCheckEnv nav res after =
     \<lparr>navigatorOnLine = nav, fetchResult = res, clockBefore = 1000, clockAfter = after, clockNow = 5000\<rparr>"

definition demoSession :: "rat \<Rightarrow> ContestSessionState" where
  "demoSession t =
     \<lparr>contestStarted = False, currentProblemIndex = 2,
      problemResults = [JObject [(''problemId'', JString ''p1''), (''score'', JNumber 40)]],
      contestCompleted = True, timeLeft = t, contestStartTime = 1700000000000,
      violationCount = 1, penaltyPoints = 10\<rparr>"


text \<open>The page with its timer at \<open>t\<close>; \<open>demoPage 0\<close> is the page as it is mounted.\<close>

definition demoPage :: "rat \<Rightarrow> page" where
  "demoPage t =
     \<lparr>session = \<lparr>contestStarted = False, currentProblemIndex = 0, problemResults = [],
                 contestCompleted = False, timeLeft = t, contestStartTime = 0,
                 violationCount = 0, penaltyPoints = 0\<rparr>,
      showFinalSubmission = False, monitoring = False\<rparr>"

definition demoStorage :: localStorage where
  "demoStorage =
     [(''token'', Text ''abc''),
      (''current_user_state'',
       Json (JObject [(''userId'', JString ''u1''), (''lastLogin'', JString ''2025-01-01T00:00:00.000Z'')])),
      (''contest_prepared_c1'', Json (JBool True))]"

definition demoFirstLogin :: localStorage where
  "demoFirstLogin =
     [(''token'', Text ''abc''),
      (''contest_state'', Json (JObject [(''timeLeft'', JNumber 1800)])),
      (''contest_prepared_c1'', Json (JBool True)),
      (''internet_violations'', Json (JArray []))]"

definition demoFinalResult :: js_value where
  "demoFinalResult =
     JObject [(''userId'', JString ''u1''), (''contestId'', JString ''c1''),
              (''totalScore'', JNumber 30), (''penaltyPoints'', JNumber 10)]"

definition demoSubmit :: submit_ctx where
  "demoSubmit =
     \<lparr>internetOnline = True, userId = Some ''u1'', routeId = Some ''c1'', freshRest = [],
      normaliseStored = (\<lambda>v. Inr v),
      respond = (\<lambda>k. if k < 2 then FetchRejected \<lparr>err_name = ''TypeError'', err_message = ''Failed to fetch''\<rparr>
                      else ResponseOk),
      submitBuiltins = demoBuiltins\<rparr>"

chapter \<open>Properties\<close>

section \<open>Execution sandbox: the pass policy\<close>


lemma gradeRun_passed:
  "gradeRun S r tc = Inr res \<Longrightarrow>
     passed res = (\<not> truthy (field r ''error'')
                   \<and> (normalizeOutput (builtins S) (field r ''result'') = trim (expectedOutput tc)
                      \<or> stdoutOf r = JString (trim (expectedOutput tc))))"
  by (auto simp: gradeRun_def Let_def split: if_splits js_value.splits)

lemma gradeRun_Inr_iff:
  "(\<exists>res. gradeRun S r tc = Inr res) \<longleftrightarrow>
     r \<noteq> JUndefined \<and> r \<noteq> JNull
     \<and> (if truthy (field r ''error'') then isText (field r ''error'') else isText (stdoutOf r))"
  by (auto simp: gradeRun_def Let_def isText_def stdoutOf_def truthy_def
           split: if_splits js_value.splits)

lemma gradeRun_Inl: "gradeRun S r tc = Inl msg \<Longrightarrow> msg = typeErrorText S"
  by (auto simp: gradeRun_def Let_def split: if_splits js_value.splits)






section \<open>Execution sandbox: white space\<close>

text \<open>
  The expected output only enters the comparison trimmed: two test cases whose expected
  outputs differ by surrounding white space pass or fail together.
\<close>

lemma gradeRun_expected:
  assumes "trim e = trim e'"
  shows "(case gradeRun S r (tc\<lparr>expectedOutput := e\<rparr>) of Inr res \<Rightarrow> passed res | Inl m \<Rightarrow> False)
       = (case gradeRun S r (tc\<lparr>expectedOutput := e'\<rparr>) of Inr res \<Rightarrow> passed res | Inl m \<Rightarrow> False)"
proof (cases "\<exists>res. gradeRun S r (tc\<lparr>expectedOutput := e\<rparr>) = Inr res")
  case True
  then obtain res where a: "gradeRun S r (tc\<lparr>expectedOutput := e\<rparr>) = Inr res" by (elim exE)
  from True have "r \<noteq> JUndefined \<and> r \<noteq> JNull
     \<and> (if truthy (field r ''error'') then isText (field r ''error'') else isText (stdoutOf r))"
    by (rule gradeRun_Inr_iff[THEN iffD1])
  then have "\<exists>res. gradeRun S r (tc\<lparr>expectedOutput := e'\<rparr>) = Inr res"
    by (rule gradeRun_Inr_iff[THEN iffD2])
  then obtain res' where b: "gradeRun S r (tc\<lparr>expectedOutput := e'\<rparr>) = Inr res'" by (elim exE)
  show ?thesis
    using gradeRun_passed[OF a] gradeRun_passed[OF b] assms by (simp add: a b)
next
  case False
  have "\<not> (\<exists>res. gradeRun S r (tc\<lparr>expectedOutput := e'\<rparr>) = Inr res)"
  proof
    assume "\<exists>res. gradeRun S r (tc\<lparr>expectedOutput := e'\<rparr>) = Inr res"
    then have "r \<noteq> JUndefined \<and> r \<noteq> JNull
       \<and> (if truthy (field r ''error'') then isText (field r ''error'') else isText (stdoutOf r))"
      by (rule gradeRun_Inr_iff[THEN iffD1])
    then have "\<exists>res. gradeRun S r (tc\<lparr>expectedOutput := e\<rparr>) = Inr res"
      by (rule gradeRun_Inr_iff[THEN iffD2])
    with False show False by simp
  qed
  with False show ?thesis
    by (cases "gradeRun S r (tc\<lparr>expectedOutput := e\<rparr>)";
        cases "gradeRun S r (tc\<lparr>expectedOutput := e'\<rparr>)") simp_all
qed

lemma expected_whitespace_irrelevant:
  assumes "trim e = trim e'"
  shows "passed (executeTestCase S code language (tc\<lparr>expectedOutput := e\<rparr>))
           = passed (executeTestCase S code language (tc\<lparr>expectedOutput := e'\<rparr>))"
proof -
  have p: "passed (executeTestCase S code language t)
             = (case tryExecute S code language t of Inr res \<Rightarrow> passed res | Inl m \<Rightarrow> False)" for t
    by (cases "tryExecute S code language t") (simp_all add: executeTestCase_def failedResult_def)
  show ?thesis
    using gradeRun_expected[OF assms, of S _ tc]
    by (simp add: p tryExecute_def)
qed

text \<open>
  Claim C9 at a JavaScript program that prints \<open>6\<close> followed by a space, against the
  expected output \<open>6\<close>: the result does not pass, although the output it returns,
  trimmed, is the expected output. The same text captured from a Python program passes,
  because \<^const>\<open>runPythonUserCode\<close> trims the captured text and
  \<^const>\<open>runJavaScriptUserCode\<close> does not.
\<close>

theorem javascript_output_whitespace_fails:
  "passed (executeTestCase (demoSandbox (JsCompleted [''6 '']) (PyCompleted ''6 ''))
             ''code'' ''javascript'' demoTest) = False
   \<and> output (executeTestCase (demoSandbox (JsCompleted [''6 '']) (PyCompleted ''6 ''))
               ''code'' ''javascript'' demoTest) = expectedOutput demoTest
   \<and> passed (executeTestCase (demoSandbox (JsCompleted [''6'']) (PyCompleted ''6 ''))
               ''code'' ''javascript'' demoTest) = True
   \<and> passed (executeTestCase (demoSandbox (JsCompleted [''6 '']) (PyCompleted ''6 ''))
               ''code'' ''python'' demoTest) = True"
  by (simp add: executeTestCase_def tryExecute_def gradeRun_def stdoutOf_def runResult_def
        optStr_def field_def truthy_def demoSandbox_def demoTest_def runJavaScriptUserCode_def
        runPythonUserCode_def normalizeOutput_def String_js_def trim_def
        isWhiteSpace_def Let_def demoBuiltins_def)

section \<open>Final submission: bounded retry with backoff\<close>

lemma retryDelays_append: "retryDelays (xs @ ys) = retryDelays xs @ retryDelays ys"
  by (induction xs rule: retryDelays.induct) auto

lemma postCount_append: "postCount (xs @ ys) = postCount xs + postCount ys"
  by (simp add: postCount_def)

lemma attempt_Done_posts: "attempt C st rc = Done effs \<Longrightarrow> postCount effs \<le> 1 \<and> retryDelays effs = []"
  by (auto simp: attempt_def postCount_def split: sum.splits if_splits fetch_outcome.splits)

lemma attempt_Failed_posts: "attempt C st rc = Failed effs e \<Longrightarrow> postCount effs \<le> 1 \<and> retryDelays effs = []"
  by (auto simp: attempt_def postCount_def split: sum.splits if_splits fetch_outcome.splits)

lemma submit_storage: "snd (submitFinalResults C st rc) = st"
proof (induction C st rc rule: submitFinalResults.induct)
  case (1 C st rc)
  show ?case
  proof (cases "attempt C st rc")
    case (Done effs)
    then show ?thesis by (simp split: if_splits)
  next
    case (Failed effs e)
    then show ?thesis using 1 by (simp add: Let_def)
  qed
qed

lemma submit_posts: "postCount (fst (submitFinalResults C st rc)) \<le> (if rc < maxRetries then maxRetries - rc else 1)"
proof (induction C st rc rule: submitFinalResults.induct)
  case (1 C st rc)
  show ?case
  proof (cases "internetOnline C")
    case False
    then show ?thesis by (simp add: postCount_def maxRetries_def)
  next
    case on: True
    then have nn: "\<not> \<not> internetOnline C" by simp
    show ?thesis
    proof (cases "attempt C st rc")
      case (Done effs)
      then show ?thesis using on attempt_Done_posts[OF Done] by (auto simp: maxRetries_def)
    next
      case (Failed effs e)
      show ?thesis
      proof (cases "rc < maxRetries - 1")
        case True
        with 1[OF nn Failed True refl] Failed on attempt_Failed_posts[OF Failed]
        show ?thesis
          by (auto simp: Let_def postCount_append maxRetries_def postCount_def split: if_splits)
      next
        case False
        with Failed on attempt_Failed_posts[OF Failed]
        show ?thesis
          by (auto simp: Let_def postCount_append maxRetries_def postCount_def split: if_splits)
      qed
    qed
  qed
qed

lemma submit_delays:
  "retryDelays (fst (submitFinalResults C st rc)) =
     map (\<lambda>k. 2 ^ k * 1000) [rc ..< rc + length (retryDelays (fst (submitFinalResults C st rc)))]
   \<and> length (retryDelays (fst (submitFinalResults C st rc))) \<le> maxRetries - 1 - rc"
proof (induction C st rc rule: submitFinalResults.induct)
  case (1 C st rc)
  show ?case
  proof (cases "internetOnline C")
    case False
    then show ?thesis by simp
  next
    case on: True
    then have nn: "\<not> \<not> internetOnline C" by simp
    show ?thesis
    proof (cases "attempt C st rc")
      case (Done effs)
      then show ?thesis using on attempt_Done_posts[OF Done] by simp
    next
      case (Failed effs e)
      show ?thesis
      proof (cases "rc < maxRetries - 1")
        case True
        let ?n = "submitFinalResults C st (rc + 1)"
        have ih: "retryDelays (fst ?n) = map (\<lambda>k. 2 ^ k * 1000) [rc + 1 ..< rc + 1 + length (retryDelays (fst ?n))]"
          and ihl: "length (retryDelays (fst ?n)) \<le> maxRetries - 1 - (rc + 1)"
          using 1[OF nn Failed True refl] by auto
        have eq: "retryDelays (fst (submitFinalResults C st rc)) = (2 ^ rc * 1000) # retryDelays (fst ?n)"
          using Failed on True attempt_Failed_posts[OF Failed]
          by (simp add: Let_def retryDelays_append)
        have "[rc ..< rc + Suc (length (retryDelays (fst ?n)))] = rc # [rc + 1 ..< rc + 1 + length (retryDelays (fst ?n))]"
          by (simp add: upt_rec)
        then show ?thesis using eq ih ihl True by (auto simp: maxRetries_def)
      next
        case False
        with Failed on attempt_Failed_posts[OF Failed]
        show ?thesis
          by (auto simp: Let_def retryDelays_append)
      qed
    qed
  qed
qed

lemma attempt_Done_one: "attempt C st rc = Done effs \<Longrightarrow> oneAttempt effs"
  using attempt_Done_posts by (simp add: oneAttempt_def)

lemma attempt_Failed_one:
  "attempt C st rc = Failed effs e \<Longrightarrow> oneAttempt (effs @ [Toast t])"
  "attempt C st rc = Failed effs e \<Longrightarrow> oneAttempt (effs @ [Toast t, Toast t', HideAndNavigateAfter n])"
  using attempt_Failed_posts[of C st rc effs e]
  by (simp_all add: oneAttempt_def postCount_def retryDelays_append)

lemma chain_Cons: "segs \<noteq> [] \<Longrightarrow> chain k (seg # segs) = seg @ [RetryAfter (2 ^ k * 1000)] @ chain (Suc k) segs"
  by (cases segs) simp_all

text \<open>
  The trace of a call at retry count \<open>rc\<close> is a chain of the traces of at most
  \<open>3 - rc\<close> invocations, each with at most one POST request, the retry timers doubling
  from \<open>2 ^ rc\<close> seconds.
\<close>

lemma submit_chain:
  "\<exists>segs. fst (submitFinalResults C st rc) = chain rc segs
          \<and> segs \<noteq> []
          \<and> length segs \<le> (if rc < maxRetries then maxRetries - rc else 1)
          \<and> list_all oneAttempt segs"
proof (induction C st rc rule: submitFinalResults.induct)
  case (1 C st rc)
  show ?case
  proof (cases "internetOnline C")
    case False
    have "fst (submitFinalResults C st rc) = chain rc [[Toast TurnOnInternet]]"
      using False by simp
    moreover have "list_all oneAttempt [[Toast TurnOnInternet]]"
      by (simp add: oneAttempt_def postCount_def)
    ultimately show ?thesis
      by (intro exI[of _ "[[Toast TurnOnInternet]]"])
         (auto simp: maxRetries_def simp del: submitFinalResults.simps)
  next
    case on: True
    then have nn: "\<not> \<not> internetOnline C" by simp
    show ?thesis
    proof (cases "attempt C st rc")
      case (Done effs)
      have "fst (submitFinalResults C st rc) = chain rc [effs]"
        using on Done by simp
      moreover have "list_all oneAttempt [effs]"
        using attempt_Done_one[OF Done] by simp
      ultimately show ?thesis
        by (intro exI[of _ "[effs]"])
           (auto simp: maxRetries_def simp del: submitFinalResults.simps)
    next
      case (Failed effs e)
      show ?thesis
      proof (cases "rc < maxRetries - 1")
        case True
        let ?n = "submitFinalResults C st (rc + 1)"
        let ?seg = "effs @ [Toast (Retrying (messageOr e) (2 ^ rc * 1000 div 1000) (rc + 1))]"
        from 1[OF nn Failed True refl] obtain segs where
          ch: "fst ?n = chain (rc + 1) segs" and ne: "segs \<noteq> []"
          and le: "length segs \<le> (if rc + 1 < maxRetries then maxRetries - (rc + 1) else 1)"
          and al: "list_all oneAttempt segs"
          by (elim exE conjE)
        have tr: "fst (submitFinalResults C st rc) = ?seg @ [RetryAfter (2 ^ rc * 1000)] @ fst ?n"
          using on Failed True by (simp add: Let_def)
        have "fst (submitFinalResults C st rc) = chain rc (?seg # segs)"
          using tr ch chain_Cons[OF ne, of rc ?seg] by (simp del: submitFinalResults.simps)
        moreover have "list_all oneAttempt (?seg # segs)"
          using al attempt_Failed_one(1)[OF Failed] by simp
        moreover have "length (?seg # segs) \<le> (if rc < maxRetries then maxRetries - rc else 1)"
          using le True by (simp add: maxRetries_def split: if_splits)
        ultimately show ?thesis
          by (intro exI[of _ "?seg # segs"]) (simp del: submitFinalResults.simps)
      next
        case False
        let ?seg = "effs @ [Toast (GaveUp (messageOr e)),
                        (if err_name e = ''TypeError'' \<and> includesStr (err_message e) ''fetch''
                         then Toast CannotConnect else Toast ServerErrorLater),
                        HideAndNavigateAfter 3000]"
        have "fst (submitFinalResults C st rc) = chain rc [?seg]"
          using on Failed False by simp
        moreover have "list_all oneAttempt [?seg]"
          using attempt_Failed_one(2)[OF Failed] by simp
        ultimately show ?thesis
          by (intro exI[of _ "[?seg]"])
             (auto simp: maxRetries_def simp del: submitFinalResults.simps)
      qed
    qed
  qed
qed

text \<open>
  Claim C3. The trace of a call chain of \<^verbatim>\<open>submitFinalResults\<close> that starts at
  retry count 0 is made of the traces of at most 3 invocations, each with at most one
  POST request, so that at most 3 POST requests are made in total; between the trace of
  invocation \<open>k\<close> and that of the retry \<open>k + 1\<close> stands the retry timer of \<open>2 ^ k\<close>
  seconds (1000 ms before the first retry, 2000 ms before the second), and there is no
  other retry timer; and the chain leaves the persistence as it found it, so the stored
  final result is still there after the last failed attempt.
\<close>

theorem submitFinalResults_bounded_retry:
  "(\<exists>segs. fst (submitFinalResults C st 0) = chain 0 segs
           \<and> segs \<noteq> [] \<and> length segs \<le> 3 \<and> list_all oneAttempt segs)
   \<and> postCount (fst (submitFinalResults C st 0)) \<le> 3
   \<and> length (retryDelays (fst (submitFinalResults C st 0))) \<le> 2
   \<and> retryDelays (fst (submitFinalResults C st 0)) =
       map (\<lambda>k. 2 ^ k * 1000) [0 ..< length (retryDelays (fst (submitFinalResults C st 0)))]
   \<and> snd (submitFinalResults C st 0) = st
   \<and> getItem (snd (submitFinalResults C st 0)) ''final_contest_result'' = getItem st ''final_contest_result''"
  using submit_chain[of C st 0] submit_posts[of C st 0] submit_delays[of C st 0]
    submit_storage[of C st 0]
  by (simp add: maxRetries_def del: submitFinalResults.simps)

text \<open>
  When the connection is reported up and every attempt fails, the chain does retry: it
  sets both timers, 1000 ms and then 2000 ms, and gives up after the third attempt.
\<close>

lemma submit_retries_when_failing:
  assumes "internetOnline C"
    and "attempt C st 0 = Failed effs0 e0"
    and "attempt C st 1 = Failed effs1 e1"
    and "attempt C st 2 = Failed effs2 e2"
  shows "fst (submitFinalResults C st 0)
     = effs0 @ [Toast (Retrying (messageOr e0) 1 1), RetryAfter 1000]
       @ effs1 @ [Toast (Retrying (messageOr e1) 2 2), RetryAfter 2000]
       @ effs2 @ [Toast (GaveUp (messageOr e2)),
                  (if err_name e2 = ''TypeError'' \<and> includesStr (err_message e2) ''fetch''
                   then Toast CannotConnect else Toast ServerErrorLater),
                  HideAndNavigateAfter 3000]"
proof -
  have two: "fst (submitFinalResults C st 2)
     = effs2 @ [Toast (GaveUp (messageOr e2)),
                  (if err_name e2 = ''TypeError'' \<and> includesStr (err_message e2) ''fetch''
                   then Toast CannotConnect else Toast ServerErrorLater),
                  HideAndNavigateAfter 3000]"
    using assms(1,4) by (simp add: maxRetries_def)
  have one: "fst (submitFinalResults C st 1)
     = effs1 @ [Toast (Retrying (messageOr e1) 2 2), RetryAfter 2000] @ fst (submitFinalResults C st 2)"
    using assms(1,3)
    by (subst submitFinalResults.simps)
       (simp add: maxRetries_def Let_def numeral_2_eq_2 del: submitFinalResults.simps)
  have zero: "fst (submitFinalResults C st 0)
     = effs0 @ [Toast (Retrying (messageOr e0) 1 1), RetryAfter 1000] @ fst (submitFinalResults C st 1)"
    using assms(1,2)
    by (subst submitFinalResults.simps)
       (simp add: maxRetries_def Let_def del: submitFinalResults.simps)
  show ?thesis
    unfolding zero one two by simp
qed

text \<open>
  A submission that fails twice and is acknowledged the third time: three POST requests,
  with timers of 1000 ms and 2000 ms between them.
\<close>

lemma fails_twice_then_succeeds:
  "fst (submitFinalResults demoSubmit [(''final_contest_result'', Json demoFinalResult)] 0)
     = [Post demoFinalResult, Toast (Retrying ''Failed to fetch'' 1 1), RetryAfter 1000,
        Post demoFinalResult, Toast (Retrying ''Failed to fetch'' 2 2), RetryAfter 2000,
        Post demoFinalResult, Toast Submitted, HideFinalSubmission, NavigateAfter 2000]"
  by code_simp

section \<open>Scoring a completed problem\<close>

text \<open>
  With a non-empty list of test cases the score is the sum, over the passed results, of
  the points declared at the same index (0 where none is declared or the index is out of
  range).
\<close>

lemma scoreOf_declared:
  assumes "ptsArray \<noteq> []"
  shows "scoreOf ptsArray rs = (\<Sum>i<length rs. if passed (rs ! i) then ptsAt ptsArray i else 0)"
proof -
  let ?f = "\<lambda>sum (ri :: ExecutionResult \<times> nat). sum + (if passed (fst ri) then ptsAt ptsArray (snd ri) else 0)"
  have "foldl ?f 0 (zip rs [0 ..< length rs]) = (\<Sum>i<length rs. if passed (rs ! i) then ptsAt ptsArray i else 0)"
  proof (induction rs rule: rev_induct)
    case Nil
    then show ?case by simp
  next
    case (snoc r rs)
    have "zip (rs @ [r]) [0 ..< length (rs @ [r])] = zip rs [0 ..< length rs] @ [(r, length rs)]"
      by simp
    then show ?case using snoc by (simp add: nth_append)
  qed
  then show ?thesis using assms by (simp add: scoreOf_def Let_def cong: if_cong)
qed

text \<open>
  The even split of 100 is taken only when the problem has no test case at all.
\<close>

lemma scoreOf_even_split:
  "scoreOf [] rs = of_nat (length (filter passed rs)) * (100 / of_nat (max 1 (length rs)))"
proof -
  define c :: rat where "c = 100 / of_nat (max 1 (length rs))"
  let ?f = "\<lambda>sum (ri :: ExecutionResult \<times> nat). sum + (if passed (fst ri) then c else 0)"
  have "foldl ?f a (zip xs ns) = a + of_nat (length (filter passed xs)) * c" if "length xs = length ns" for a xs ns
    using that by (induction xs ns arbitrary: a rule: list_induct2) (auto simp: algebra_simps)
  from this[of rs "[0 ..< length rs]" 0]
  have e: "foldl ?f 0 (zip rs [0 ..< length rs]) = of_nat (length (filter passed rs)) * c"
    by simp
  have s: "scoreOf [] rs = foldl ?f 0 (zip rs [0 ..< length rs])"
    unfolding scoreOf_def Let_def c_def by (simp cong: if_cong)
  show ?thesis
    using e unfolding s c_def .
qed

text \<open>
  Claim C2 at a problem with two test cases that declare no points, both passed: the
  points array is \<open>[0, 0]\<close>, its length is positive, so the even split is not taken and
  the score is 0, not 100.
\<close>

theorem undeclared_points_score_zero:
  "map_option score (markProblemDone demoSolver (Some demoProblem) ''code'' ''javascript'' []) = Some 0
   \<and> map_option (\<lambda>r. map passed (testResults r))
        (markProblemDone demoSolver (Some demoProblem) ''code'' ''javascript'' []) = Some [True, True]
   \<and> map points (the (testCases demoProblem)) = [None, None]"
  by (simp add: markProblemDone_def solverRunCode_def runCode_def demoProblem_def demoSolver_def
      demoTest_def demoTestSum_def trim_def isWhiteSpace_def combinedCode_def executeTestCase_def
      tryExecute_def gradeRun_def stdoutOf_def runResult_def optStr_def field_def truthy_def
      runJavaScriptUserCode_def normalizeOutput_def String_js_def Let_def
      demoBuiltins_def ptsArrayOf_def pointsOf_def scoreOf_def ptsAt_def upt_rec)

section \<open>Preparation pipeline: progress and the single run in flight\<close>

lemma updateProgress_guard [simp]: "isPreparing (updateProgress u cp) = isPreparing cp"
  by (simp add: updateProgress_def Let_def)

lemma updateProgress_published [simp]:
  "published (updateProgress u cp) = published cp @ [mergeProgress (progressNow cp) u]"
  by (simp add: updateProgress_def Let_def)

lemma updateProgress_now [simp]:
  "progressNow (updateProgress u cp) = mergeProgress (progressNow cp) u"
  by (simp add: updateProgress_def Let_def)

lemma progress_merge_step [simp]: "progress (mergeProgress p (step n m d)) = n"
  by (simp add: mergeProgress_def step_def)

lemma publish_keepsGuard: "publish u cp = Inr cp' \<Longrightarrow> isPreparing cp' = isPreparing cp"
  by (auto simp: publish_def)

lemma storePrepared_keepsGuard: "storePrepared E cp = Inr cp' \<Longrightarrow> isPreparing cp' = isPreparing cp"
  by (auto simp: storePrepared_def split: option.splits if_splits)

lemma recordPythonReady_keepsGuard:
  "recordPythonReady E cp = Inr cp' \<Longrightarrow> isPreparing cp' = isPreparing cp"
  by (auto simp: recordPythonReady_def split: option.splits)

lemma stages_keepGuard:
  "a \<in> set (stages E) \<Longrightarrow> a cp = Inr cp' \<Longrightarrow> isPreparing cp' = isPreparing cp"
  by (auto simp: stages_def downloadPythonLibraries_def downloadJavaScriptLibraries_def
        downloadContestProblems_def prepareOfflineEnvironment_def finalizePreparation_def
        dest: publish_keepsGuard storePrepared_keepsGuard recordPythonReady_keepsGuard)

lemma runActions_guard_Inr:
  assumes "\<And>a c c'. a \<in> set as \<Longrightarrow> a c = Inr c' \<Longrightarrow> isPreparing c' = isPreparing c"
    and "runActions as cp = Inr cp'"
  shows "isPreparing cp' = isPreparing cp"
  using assms
proof (induction as arbitrary: cp)
  case Nil
  then show ?case by simp
next
  case (Cons a as)
  from Cons.prems(2) obtain c1 where a1: "a cp = Inr c1" and r: "runActions as c1 = Inr cp'"
    by (auto split: sum.splits)
  have "isPreparing c1 = isPreparing cp"
    using Cons.prems(1)[of a cp c1] a1 by simp
  moreover have "isPreparing cp' = isPreparing c1"
  proof (rule Cons.IH[OF _ r])
    fix b c c'
    assume "b \<in> set as" "b c = Inr c'"
    then show "isPreparing c' = isPreparing c"
      using Cons.prems(1)[of b c c'] by simp
  qed
  ultimately show ?case by simp
qed

lemma enter_guard: "isPreparing (enterPreparation cp)"
  by (simp add: enterPreparation_def)

lemma inFlight_guard: "inFlight E cp k = Some cp' \<Longrightarrow> isPreparing cp'"
proof -
  assume a: "inFlight E cp k = Some cp'"
  then have r: "runActions (take k (stages E)) (enterPreparation cp) = Inr cp'"
    by (auto simp: inFlight_def split: sum.splits)
  have "\<And>a c c'. a \<in> set (take k (stages E)) \<Longrightarrow> a c = Inr c' \<Longrightarrow> isPreparing c' = isPreparing c"
    using stages_keepGuard by (meson in_set_takeD)
  from runActions_guard_Inr[OF this r] show ?thesis by (simp add: enter_guard)
qed

lemma prepareContest_rejects: "isPreparing cp \<Longrightarrow> prepareContest E cp = (False, cp)"
  by (simp add: prepareContest_def)

lemma prepareContest_clears: "\<not> isPreparing cp \<Longrightarrow> \<not> isPreparing (snd (prepareContest E cp))"
  by (auto simp: prepareContest_def split: sum.splits prod.splits)

lemma runActions_append:
  "runActions (as @ bs) cp = (case runActions as cp of Inl x \<Rightarrow> Inl x | Inr c \<Rightarrow> runActions bs c)"
  by (induction as arbitrary: cp) (auto split: sum.splits)

lemma runActions_publish:
  "runActions (map publish us) cp = Inr (foldl (\<lambda>c u. updateProgress u c) cp us)"
  by (induction us arbitrary: cp) (auto simp: publish_def)

lemma foldl_update_published:
  assumes "list_all (\<lambda>u. u_progress u \<noteq> None) us"
  shows "map progress (published (foldl (\<lambda>c u. updateProgress u c) cp us))
           = map progress (published cp) @ map (\<lambda>u. the (u_progress u)) us"
  using assms
  by (induction us arbitrary: cp) (auto simp: mergeProgress_def)

lemma foldl_update_length:
  "length (published (foldl (\<lambda>c u. updateProgress u c) cp us)) = length (published cp) + length us"
  by (induction us arbitrary: cp) auto

lemma stages_shape:
  "\<exists>us vs. stages E = map publish us @ [recordPythonReady E] @ map publish vs @ [storePrepared E]
        \<and> list_all (\<lambda>u. u_progress u \<noteq> None) (us @ vs)
        \<and> map (\<lambda>u. the (u_progress u)) (us @ vs)
            = [10, 30, 40, 60, 70, 85, 90, 92, (if pythonPreloadOk E then 94 else 90), 95, 98]"
  by (rule exI[of _ "[step 10 ''Downloading Python libraries...''
                 ''Setting up Pyodide for offline Python execution'',
      step 30 ''Python libraries downloaded'' ''Pyodide loaded successfully'',
      step 40 ''Downloading JavaScript libraries...''
                 ''Setting up offline JavaScript execution environment'',
      step 60 ''JavaScript libraries downloaded'' ''Offline JS execution ready'',
      step 70 ''Downloading contest problems...''
                 ''Loading DSA problems and test cases'',
      step 85 ''Contest problems loaded''
                 ''Problems and test cases ready for offline use'',
      step 90 ''Preparing offline environment...''
                 ''Setting up code execution sandbox'',
      step 92 ''Initializing Python engine...''
                 ''Loading Pyodide for offline Python execution'']"],
      rule exI[of _ "[step (if pythonPreloadOk E then 94 else 90)
                 (if pythonPreloadOk E then ''Python engine ready''
                  else ''Python engine unavailable'')
                 (if pythonPreloadOk E then ''Pyodide initialized successfully''
                  else ''Pyodide failed to initialize''),
      step 95 ''Offline environment ready'' ''Code execution sandbox prepared'',
      step 98 ''Finalizing preparation...'' ''Completing setup and verification'']"])
     (simp add: stages_def downloadPythonLibraries_def downloadJavaScriptLibraries_def
        downloadContestProblems_def prepareOfflineEnvironment_def finalizePreparation_def
        step_def)

lemma updateProgress_storage:
  "updateProgress u (c\<lparr>prepStorage := st\<rparr>) = (updateProgress u c)\<lparr>prepStorage := st\<rparr>"
  by (simp add: updateProgress_def Let_def)

lemma foldl_update_storage:
  "foldl (\<lambda>c u. updateProgress u c) (c\<lparr>prepStorage := st\<rparr>) us
     = (foldl (\<lambda>c u. updateProgress u c) c us)\<lparr>prepStorage := st\<rparr>"
  by (induction us arbitrary: c) (simp_all add: updateProgress_storage)

lemma recordPythonReady_quiet: "\<exists>st. recordPythonReady E cp = Inr (cp\<lparr>prepStorage := st\<rparr>)"
proof (cases "storageWriteFails E")
  case None
  then show ?thesis unfolding recordPythonReady_def by simp (rule exI, rule refl)
next
  case (Some msg)
  then have "recordPythonReady E cp = Inr (cp\<lparr>prepStorage := prepStorage cp\<rparr>)"
    by (simp add: recordPythonReady_def)
  then show ?thesis by (rule exI)
qed

text \<open>
  The stages publish eleven updates and then write the flag; what they write to the
  persistence before that does not touch the progress.
\<close>

lemma run_stages:
  "\<exists>us st. list_all (\<lambda>u. u_progress u \<noteq> None) us
        \<and> map (\<lambda>u. the (u_progress u)) us
            = [10, 30, 40, 60, 70, 85, 90, 92, (if pythonPreloadOk E then 94 else 90), 95, 98]
        \<and> runActions (stages E) c0
            = (case storePrepared E ((foldl (\<lambda>c u. updateProgress u c) c0 us)\<lparr>prepStorage := st\<rparr>) of
                 Inl msg \<Rightarrow> Inl (msg, (foldl (\<lambda>c u. updateProgress u c) c0 us)\<lparr>prepStorage := st\<rparr>)
               | Inr c \<Rightarrow> Inr c)"
proof -
  obtain us vs where sh: "stages E = map publish us @ [recordPythonReady E] @ map publish vs @ [storePrepared E]"
    and al: "list_all (\<lambda>u. u_progress u \<noteq> None) (us @ vs)"
    and pr: "map (\<lambda>u. the (u_progress u)) (us @ vs)
            = [10, 30, 40, 60, 70, 85, 90, 92, (if pythonPreloadOk E then 94 else 90), 95, 98]"
    using stages_shape[of E] by (elim exE conjE)
  define c1 where "c1 = foldl (\<lambda>c u. updateProgress u c) c0 us"
  obtain st where rq: "recordPythonReady E c1 = Inr (c1\<lparr>prepStorage := st\<rparr>)"
    using recordPythonReady_quiet[of E c1] by (elim exE)
  have f: "foldl (\<lambda>c u. updateProgress u c) (c1\<lparr>prepStorage := st\<rparr>) vs
             = (foldl (\<lambda>c u. updateProgress u c) c0 (us @ vs))\<lparr>prepStorage := st\<rparr>"
    by (simp add: foldl_update_storage c1_def)
  have "runActions (stages E) c0
          = runActions [storePrepared E] ((foldl (\<lambda>c u. updateProgress u c) c0 (us @ vs))\<lparr>prepStorage := st\<rparr>)"
    unfolding sh
    by (simp only: runActions_append runActions_publish c1_def[symmetric] sum.case
          runActions.simps rq f[symmetric])
  then have "runActions (stages E) c0
      = (case storePrepared E ((foldl (\<lambda>c u. updateProgress u c) c0 (us @ vs))\<lparr>prepStorage := st\<rparr>) of
                 Inl msg \<Rightarrow> Inl (msg, (foldl (\<lambda>c u. updateProgress u c) c0 (us @ vs))\<lparr>prepStorage := st\<rparr>)
               | Inr c \<Rightarrow> Inr c)"
    by (simp split: sum.splits)
  with al pr show ?thesis
    by (intro exI[of _ "us @ vs"] exI[of _ st] conjI)
qed

lemma storePrepared_ok:
  assumes "storageWriteFails E = None"
  shows "\<exists>st. storePrepared E cp = Inr (cp\<lparr>prepStorage := st\<rparr>)"
proof (cases "contestId E")
  case None
  then show ?thesis using assms unfolding storePrepared_def
    by simp (rule exI, rule refl)
next
  case (Some cid)
  then show ?thesis using assms unfolding storePrepared_def
    by (cases "cid = []"; simp) (rule exI, rule refl)+
qed

lemma storePrepared_fail: "storageWriteFails E = Some msg \<Longrightarrow> storePrepared E cp = Inl msg"
  by (simp add: storePrepared_def)

lemma enter_published:
  "map progress (published (enterPreparation cp)) = map progress (published cp) @ [0]"
  "length (published (enterPreparation cp)) = Suc (length (published cp))"
  by (simp_all add: enterPreparation_def mergeProgress_def)

lemma run_progress_ok:
  assumes "\<not> isPreparing cp" "storageWriteFails E = None"
  shows "fst (prepareContest E cp)
     \<and> stage (progressNow (snd (prepareContest E cp))) = Ready
     \<and> runProgress E cp = [0, 10, 30, 40, 60, 70, 85, 90, 92, (if pythonPreloadOk E then 94 else 90), 95, 98, 100]"
proof -
  obtain us st1 where al: "list_all (\<lambda>u. u_progress u \<noteq> None) us"
    and pr: "map (\<lambda>u. the (u_progress u)) us
            = [10, 30, 40, 60, 70, 85, 90, 92, (if pythonPreloadOk E then 94 else 90), 95, 98]"
    and rs: "runActions (stages E) (enterPreparation cp)
            = (case storePrepared E ((foldl (\<lambda>c u. updateProgress u c) (enterPreparation cp) us)\<lparr>prepStorage := st1\<rparr>) of
                 Inl msg \<Rightarrow> Inl (msg, (foldl (\<lambda>c u. updateProgress u c) (enterPreparation cp) us)\<lparr>prepStorage := st1\<rparr>)
               | Inr c \<Rightarrow> Inr c)"
    using run_stages[of E "enterPreparation cp"] by (elim exE conjE)
  define c1 where "c1 = (foldl (\<lambda>c u. updateProgress u c) (enterPreparation cp) us)\<lparr>prepStorage := st1\<rparr>"
  obtain st where sp: "storePrepared E c1 = Inr (c1\<lparr>prepStorage := st\<rparr>)"
    using storePrepared_ok[OF assms(2), of c1] by (elim exE)
  have run: "runActions (stages E) (enterPreparation cp) = Inr (c1\<lparr>prepStorage := st\<rparr>)"
    unfolding rs c1_def[symmetric] by (simp add: sp)
  have p1: "map progress (published c1) = map progress (published cp) @ 0 # map (\<lambda>u. the (u_progress u)) us"
    unfolding c1_def by (simp add: foldl_update_published[OF al] enter_published)
  have res: "prepareContest E cp =
     (True, (updateProgress
                 \<lparr>u_stage = Some Ready, u_progress = Some 100,
                  u_message = Some ''Contest preparation complete!'',
                  u_details = Some ''All systems ready. You can now turn off your internet and start the contest.''\<rparr>
                 (c1\<lparr>prepStorage := st\<rparr>))\<lparr>isPreparing := False\<rparr>)"
    using assms(1) by (simp add: prepareContest_def run)
  have all: "map progress (published (snd (prepareContest E cp)))
          = map progress (published cp) @ 0 # map (\<lambda>u. the (u_progress u)) us @ [100]"
    by (simp add: res p1 mergeProgress_def)
  have "runProgress E cp = drop (length (map progress (published cp)))
                             (map progress (published (snd (prepareContest E cp))))"
    by (simp add: runProgress_def drop_map)
  also have "\<dots> = 0 # map (\<lambda>u. the (u_progress u)) us @ [100]"
    unfolding all by simp
  finally have rp: "runProgress E cp = 0 # map (\<lambda>u. the (u_progress u)) us @ [100]" .
  have "fst (prepareContest E cp)" by (simp add: res)
  moreover have "stage (progressNow (snd (prepareContest E cp))) = Ready"
    by (simp add: res mergeProgress_def)
  ultimately show ?thesis
    by (simp add: rp pr)
qed

lemma run_progress_failed:
  assumes "\<not> isPreparing cp" "storageWriteFails E = Some msg"
  shows "\<not> fst (prepareContest E cp)
     \<and> stage (progressNow (snd (prepareContest E cp))) = Error
     \<and> runProgress E cp = [0, 10, 30, 40, 60, 70, 85, 90, 92, (if pythonPreloadOk E then 94 else 90), 95, 98, 0]"
proof -
  obtain us st1 where al: "list_all (\<lambda>u. u_progress u \<noteq> None) us"
    and pr: "map (\<lambda>u. the (u_progress u)) us
            = [10, 30, 40, 60, 70, 85, 90, 92, (if pythonPreloadOk E then 94 else 90), 95, 98]"
    and rs: "runActions (stages E) (enterPreparation cp)
            = (case storePrepared E ((foldl (\<lambda>c u. updateProgress u c) (enterPreparation cp) us)\<lparr>prepStorage := st1\<rparr>) of
                 Inl msg \<Rightarrow> Inl (msg, (foldl (\<lambda>c u. updateProgress u c) (enterPreparation cp) us)\<lparr>prepStorage := st1\<rparr>)
               | Inr c \<Rightarrow> Inr c)"
    using run_stages[of E "enterPreparation cp"] by (elim exE conjE)
  define c1 where "c1 = (foldl (\<lambda>c u. updateProgress u c) (enterPreparation cp) us)\<lparr>prepStorage := st1\<rparr>"
  have sp: "storePrepared E c1 = Inl msg"
    using storePrepared_fail[OF assms(2)] .
  have run: "runActions (stages E) (enterPreparation cp) = Inl (msg, c1)"
    unfolding rs c1_def[symmetric] by (simp add: sp)
  have p1: "map progress (published c1) = map progress (published cp) @ 0 # map (\<lambda>u. the (u_progress u)) us"
    unfolding c1_def by (simp add: foldl_update_published[OF al] enter_published)
  have res: "prepareContest E cp =
     (False, (updateProgress
                 \<lparr>u_stage = Some Error, u_progress = Some 0,
                  u_message = Some ''Preparation failed'', u_details = Some msg\<rparr>
                 c1)\<lparr>isPreparing := False\<rparr>)"
    using assms(1) by (simp add: prepareContest_def run)
  have all: "map progress (published (snd (prepareContest E cp)))
          = map progress (published cp) @ 0 # map (\<lambda>u. the (u_progress u)) us @ [0]"
    by (simp add: res p1 mergeProgress_def)
  have "runProgress E cp = drop (length (map progress (published cp)))
                             (map progress (published (snd (prepareContest E cp))))"
    by (simp add: runProgress_def drop_map)
  also have "\<dots> = 0 # map (\<lambda>u. the (u_progress u)) us @ [0]"
    unfolding all by simp
  finally have rp: "runProgress E cp = 0 # map (\<lambda>u. the (u_progress u)) us @ [0]" .
  have "\<not> fst (prepareContest E cp)" by (simp add: res)
  moreover have "stage (progressNow (snd (prepareContest E cp))) = Error"
    by (simp add: res mergeProgress_def)
  ultimately show ?thesis
    by (simp add: rp pr)
qed

lemma prepareContest_ready_iff:
  "fst (prepareContest E cp) \<longleftrightarrow> \<not> isPreparing cp \<and> storageWriteFails E = None"
proof (cases "isPreparing cp")
  case True
  then show ?thesis by (simp add: prepareContest_def)
next
  case False
  show ?thesis
  proof (cases "storageWriteFails E")
    case None
    with False run_progress_ok[OF False None] show ?thesis by simp
  next
    case (Some msg)
    with False run_progress_failed[OF False Some] show ?thesis by simp
  qed
qed

text \<open>
  Claim C4, as the code has it. A run of \<^verbatim>\<open>prepareContest\<close> that returns
  \<^verbatim>\<open>true\<close> ends in the stage \<open>ready\<close> and the last progress value it publishes
  is 100. When the warm-up of the Python runtime succeeds, the published progress values
  are non-decreasing; when it fails, they are 0, 10, 30, 40, 60, 70, 85, 90, 92, 90, 95,
  98, 100: the update after the warm-up goes back from 92 to 90.
\<close>

theorem prepareContest_progress:
  assumes "fst (prepareContest E cp)"
  shows "stage (progressNow (snd (prepareContest E cp))) = Ready
     \<and> last (runProgress E cp) = 100
     \<and> (pythonPreloadOk E \<longrightarrow> sorted (runProgress E cp))
     \<and> (\<not> pythonPreloadOk E \<longrightarrow>
          runProgress E cp = [0, 10, 30, 40, 60, 70, 85, 90, 92, 90, 95, 98, 100])"
proof -
  from assms have a: "\<not> isPreparing cp" "storageWriteFails E = None"
    by (simp_all add: prepareContest_ready_iff)
  from run_progress_ok[OF a] show ?thesis by simp
qed

text \<open>A run for contest \<open>c1\<close> in which the warm-up succeeds.\<close>

theorem prepareContest_progress_witness:
  "fst (prepareContest (demoPrepEnv True) demoPreparation)
   \<and> last (runProgress (demoPrepEnv True) demoPreparation) = 100
   \<and> sorted (runProgress (demoPrepEnv True) demoPreparation)"
proof -
  have f: "fst (prepareContest (demoPrepEnv True) demoPreparation)"
    by (simp add: prepareContest_ready_iff demoPrepEnv_def demoPreparation_def)
  have ok: "pythonPreloadOk (demoPrepEnv True)" by (simp add: demoPrepEnv_def)
  show ?thesis using prepareContest_progress[OF f] f ok by simp
qed

text \<open>
  Claim C4 as stated fails at a run in which the warm-up fails: the run ends in
  \<open>ready\<close> and its progress values are not non-decreasing.
\<close>

theorem prepareContest_progress_counterexample:
  "fst (prepareContest (demoPrepEnv False) demoPreparation)
   \<and> stage (progressNow (snd (prepareContest (demoPrepEnv False) demoPreparation))) = Ready
   \<and> runProgress (demoPrepEnv False) demoPreparation = [0, 10, 30, 40, 60, 70, 85, 90, 92, 90, 95, 98, 100]
   \<and> \<not> sorted (runProgress (demoPrepEnv False) demoPreparation)"
proof -
  have a: "\<not> isPreparing demoPreparation" "storageWriteFails (demoPrepEnv False) = None"
    by (simp_all add: demoPrepEnv_def demoPreparation_def)
  have ok: "\<not> pythonPreloadOk (demoPrepEnv False)" by (simp add: demoPrepEnv_def)
  from run_progress_ok[OF a] ok show ?thesis by simp
qed

lemma later_run_publishes:
  assumes "\<not> isPreparing c"
  shows "runProgress E c \<noteq> []"
proof (cases "storageWriteFails E")
  case None
  from run_progress_ok[OF assms None] show ?thesis by simp
next
  case (Some msg)
  from run_progress_failed[OF assms Some] show ?thesis by simp
qed

text \<open>
  Claim C7. A call of \<^verbatim>\<open>prepareContest\<close> made while the guard is set returns
  \<^verbatim>\<open>false\<close> and changes nothing, so it publishes nothing. From the moment a run has
  entered until it ends, at every point where it can be suspended, the guard is set, so
  every call made meanwhile is rejected in that way. When the run ends, by success or by
  an exception in a stage, the guard is cleared, and a later call starts a run of its own
  (it publishes progress).
\<close>

theorem prepareContest_single_flight:
  "(isPreparing cp \<longrightarrow> prepareContest E cp = (False, cp))
   \<and> (\<not> isPreparing cp \<longrightarrow>
        (\<forall>k cp'. inFlight E cp k = Some cp' \<longrightarrow>
           isPreparing cp' \<and> prepareContest E' cp' = (False, cp'))
        \<and> \<not> isPreparing (snd (prepareContest E cp))
        \<and> runProgress E' (snd (prepareContest E cp)) \<noteq> [])"
proof (intro conjI impI allI)
  assume "isPreparing cp"
  then show "prepareContest E cp = (False, cp)" by (rule prepareContest_rejects)
next
  fix k cp'
  assume "inFlight E cp k = Some cp'"
  then show "isPreparing cp'" by (rule inFlight_guard)
next
  fix k cp'
  assume "inFlight E cp k = Some cp'"
  then have "isPreparing cp'" by (rule inFlight_guard)
  then show "prepareContest E' cp' = (False, cp')" by (rule prepareContest_rejects)
next
  assume "\<not> isPreparing cp"
  then show "\<not> isPreparing (snd (prepareContest E cp))" by (rule prepareContest_clears)
next
  assume "\<not> isPreparing cp"
  then have "\<not> isPreparing (snd (prepareContest E cp))" by (rule prepareContest_clears)
  then show "runProgress E' (snd (prepareContest E cp)) \<noteq> []" by (rule later_run_publishes)
qed

text \<open>
  A run suspended after three actions of its stages: a second call is rejected and leaves
  the state as it is; the run itself ends with the guard cleared.
\<close>

theorem prepareContest_single_flight_witness:
  "\<not> isPreparing demoPreparation
   \<and> (\<exists>cp'. inFlight (demoPrepEnv True) demoPreparation 3 = Some cp'
           \<and> isPreparing cp' \<and> prepareContest (demoPrepEnv False) cp' = (False, cp'))
   \<and> \<not> isPreparing (snd (prepareContest (demoPrepEnv True) demoPreparation))"
proof -
  have g: "\<not> isPreparing demoPreparation" by (simp add: demoPreparation_def)
  obtain cp' where i: "inFlight (demoPrepEnv True) demoPreparation 3 = Some cp'"
    by (simp add: inFlight_def stages_def downloadPythonLibraries_def
          downloadJavaScriptLibraries_def publish_def)
  show ?thesis
    using prepareContest_single_flight[of demoPreparation "demoPrepEnv True" "demoPrepEnv False"] g i
    by blast
qed

section \<open>Connectivity monitor: subscribers and the check\<close>

lemma notify_fields [simp]:
  "callbacks (notify M cb) = callbacks M"
  "currentStatus (notify M cb) = currentStatus M"
  "probes (notify M cb) = probes M"
  "invoked (notify M cb) = invoked M @ [(sub_id cb, currentStatus M)]"
  "consoleErrors (notify M cb) =
     consoleErrors M @ (case sub_throws cb (currentStatus M) of Some msg \<Rightarrow> [msg] | None \<Rightarrow> [])"
  by (simp_all add: notify_def call_def Let_def split: option.splits)

lemma foldl_notify:
  "callbacks (foldl notify M cbs) = callbacks M
   \<and> currentStatus (foldl notify M cbs) = currentStatus M
   \<and> probes (foldl notify M cbs) = probes M
   \<and> invoked (foldl notify M cbs) = invoked M @ map (\<lambda>cb. (sub_id cb, currentStatus M)) cbs
   \<and> consoleErrors (foldl notify M cbs) =
       consoleErrors M @ List.map_filter (\<lambda>cb. sub_throws cb (currentStatus M)) cbs"
proof (induction cbs arbitrary: M)
  case Nil
  show ?case by (simp add: List.map_filter_simps)
next
  case (Cons cb cbs)
  show ?case
    using Cons[of "notify M cb"]
    by (simp add: List.map_filter_simps split: option.splits)
qed

lemma updateStatus_fields:
  "callbacks (updateStatus M u) = callbacks M"
  "currentStatus (updateStatus M u) = mergeStatus (currentStatus M) u"
  "probes (updateStatus M u) = probes M"
  "invoked (updateStatus M u) =
     invoked M @ map (\<lambda>cb. (sub_id cb, mergeStatus (currentStatus M) u)) (callbacks M)"
  "consoleErrors (updateStatus M u) =
     consoleErrors M @ List.map_filter (\<lambda>cb. sub_throws cb (mergeStatus (currentStatus M) u)) (callbacks M)"
  using foldl_notify[of "M\<lparr>currentStatus := mergeStatus (currentStatus M) u\<rparr>" "callbacks M"]
  by (simp_all add: updateStatus_def Let_def)

text \<open>
  Claim C5, as the code has it. \<^verbatim>\<open>subscribe\<close> appends the callback to the
  subscriber list and calls nothing: the callback is not invoked at subscription time.
  Every status update then calls each subscriber of the list once, in order, with the
  new current status, whether or not an earlier subscriber threw; each exception is
  written to the console and goes no further; and the subscriber list after the update
  is the list before it.
\<close>

theorem subscribe_notification:
  "invoked (subscribe M cb) = invoked M
   \<and> callbacks (subscribe M cb) = callbacks M @ [cb]
   \<and> currentStatus (subscribe M cb) = currentStatus M
   \<and> drop (length (invoked N)) (invoked (updateStatus N u))
       = map (\<lambda>c. (sub_id c, currentStatus (updateStatus N u))) (callbacks N)
   \<and> callbacks (updateStatus N u) = callbacks N
   \<and> consoleErrors (updateStatus N u)
       = consoleErrors N @ List.map_filter
           (\<lambda>c. sub_throws c (currentStatus (updateStatus N u))) (callbacks N)"
  by (simp add: updateStatus_fields) (simp add: subscribe_def)

text \<open>
  Claim C5 as stated fails at the first subscription to a monitor: the callback has not
  been called with the current status when \<^verbatim>\<open>subscribe\<close> returns.
\<close>

theorem subscribe_notification_counterexample:
  "(sub_id demoSubscriber, currentStatus demoMonitor) \<notin> set (invoked (subscribe demoMonitor demoSubscriber))"
  by (simp add: subscribe_def demoMonitor_def)

text \<open>
  Two subscribers that throw when the status is offline: both are called, both errors
  are logged, both stay subscribed.
\<close>

lemma throwing_subscriber_demo:
  "invoked (updateStatus (subscribe (subscribe demoMonitor demoSubscriber) (demoSubscriber\<lparr>sub_id := 8\<rparr>))
              (demoStatus\<lparr>isOnline := False, connectionQuality := Offline\<rparr>))
     = [(7, \<lparr>isOnline = False, lastChecked = 0, connectionQuality = Offline, latency = None\<rparr>),
        (8, \<lparr>isOnline = False, lastChecked = 0, connectionQuality = Offline, latency = None\<rparr>)]
   \<and> consoleErrors (updateStatus (subscribe (subscribe demoMonitor demoSubscriber) (demoSubscriber\<lparr>sub_id := 8\<rparr>))
              (demoStatus\<lparr>isOnline := False, connectionQuality := Offline\<rparr>))
     = [''offline!'', ''offline!'']
   \<and> map sub_id (callbacks (updateStatus (subscribe (subscribe demoMonitor demoSubscriber) (demoSubscriber\<lparr>sub_id := 8\<rparr>))
              (demoStatus\<lparr>isOnline := False, connectionQuality := Offline\<rparr>))) = [7, 8]"
  by (simp add: updateStatus_fields List.map_filter_simps)
     (simp add: subscribe_def demoMonitor_def demoSubscriber_def demoStatus_def mergeStatus_def List.map_filter_simps)

text \<open>
  Claim C6. When the platform reports the link down, \<^verbatim>\<open>performCheck\<close> returns
  the offline status and sends no probe. When the probe succeeds, the status is online,
  with quality good if the measured latency is below 1000 ms and poor otherwise. When the
  probe fails (a rejection of \<^verbatim>\<open>fetch\<close>, the abort after the timeout included),
  the status is offline. The offline status has \<open>isOnline = False\<close> and quality
  offline. The call never throws: its result is always a status.
\<close>

theorem performCheck_total:
  "(navigatorOnLine E = Some False \<longrightarrow>
      (\<exists>M'. performCheck E M = Inr (offlineStatus E, M') \<and> probes M' = probes M))
   \<and> (navigatorOnLine E \<noteq> Some False \<and> fetchResult E = Inr () \<longrightarrow>
      (\<exists>st M'. performCheck E M = Inr (st, M') \<and> isOnline st
         \<and> connectionQuality st = (if clockAfter E - clockBefore E < 1000 then Good else Poor)
         \<and> latency st = Some (clockAfter E - clockBefore E)))
   \<and> (navigatorOnLine E \<noteq> Some False \<and> isl (fetchResult E) \<longrightarrow>
      (\<exists>M'. performCheck E M = Inr (offlineStatus E, M')))
   \<and> \<not> isOnline (offlineStatus E) \<and> connectionQuality (offlineStatus E) = Offline
   \<and> \<not> isl (performCheck E M)"
  by (auto simp: performCheck_def checkConnectivity_def offlineStatus_def updateStatus_fields Let_def
           split: sum.splits)

text \<open>
  The three cases at a monitor without subscribers: link down; a probe answered after
  200 ms; a probe aborted where there is no \<^verbatim>\<open>navigator\<close>.
\<close>

theorem performCheck_total_witness:
  "navigatorOnLine (demoCheckEnv (Some False) (Inr ()) 1200) = Some False
   \<and> (\<exists>M'. performCheck (demoCheckEnv (Some False) (Inr ()) 1200) demoMonitor
              = Inr (offlineStatus (demoCheckEnv (Some False) (Inr ()) 1200), M')
           \<and> probes M' = probes demoMonitor)
   \<and> (\<exists>st M'. performCheck (demoCheckEnv (Some True) (Inr ()) 1200) demoMonitor = Inr (st, M')
           \<and> isOnline st \<and> connectionQuality st = Good \<and> latency st = Some 200)
   \<and> (\<exists>M'. performCheck (demoCheckEnv None (Inl ''aborted'') 4000) demoMonitor
              = Inr (offlineStatus (demoCheckEnv None (Inl ''aborted'') 4000), M'))"
  using performCheck_total[of "demoCheckEnv (Some False) (Inr ()) 1200" demoMonitor]
        performCheck_total[of "demoCheckEnv (Some True) (Inr ()) 1200" demoMonitor]
        performCheck_total[of "demoCheckEnv None (Inl ''aborted'') 4000" demoMonitor]
  by (simp add: demoCheckEnv_def)

section \<open>Key-value persistence\<close>

lemma getItem_removeItem: "getItem (removeItem k st) k' = (if k' = k then None else getItem st k')"
  by (induction st) (auto simp: getItem_def removeItem_def)

lemma map_of_replace_other:
  "k' \<noteq> k \<Longrightarrow> map_of (map (\<lambda>kv. if fst kv = k then (k, v) else kv) st) k' = map_of st k'"
  by (induction st) auto

lemma map_of_replace_same:
  "k \<in> fst ` set st \<Longrightarrow> map_of (map (\<lambda>kv. if fst kv = k then (k, v) else kv) st) k = Some v"
  by (induction st) auto

lemma getItem_setItem: "getItem (setItem k v st) k' = (if k' = k then Some v else getItem st k')"
proof (cases "k \<in> set (map fst st)")
  case False
  then have n: "map_of st k = None" by (simp add: map_of_eq_None_iff)
  show ?thesis
    using False n by (simp add: getItem_def setItem_def map_add_def split: option.splits)
next
  case True
  then show ?thesis
    by (simp add: getItem_def setItem_def map_of_replace_other map_of_replace_same)
qed

lemma getItem_foldl_removeItem:
  "getItem (foldl (\<lambda>s key. removeItem key s) st ks) k = (if k \<in> set ks then None else getItem st k)"
  by (induction ks arbitrary: st) (auto simp: getItem_removeItem)

lemma getItem_Some_key: "getItem st k = Some v \<Longrightarrow> k \<in> set (map fst st)"
  by (auto simp: getItem_def dest: map_of_SomeD intro: rev_image_eqI)

section \<open>Session controller: the round trip of the session\<close>

lemma saved_state_read:
  "getItem (saveContestState s st) ''contest_state''
     = Some (Json (JObject
          [(''contestStarted'', JBool (contestStarted s)),
           (''currentProblemIndex'', JNumber (currentProblemIndex s)),
           (''problemResults'', serialised (JArray (problemResults s))),
           (''contestCompleted'', JBool (contestCompleted s)),
           (''timeLeft'', JNumber (timeLeft s)),
           (''contestStartTime'', JNumber (contestStartTime s)),
           (''violationCount'', JNumber (violationCount s)),
           (''penaltyPoints'', JNumber (penaltyPoints s))]))"
  by (simp add: saveContestState_def getItem_setItem stringify_def)

lemma initializeInternetMonitoring_session [simp]:
  "session (initializeInternetMonitoring pg) = session pg"
  by (simp add: initializeInternetMonitoring_def)


text \<open>A device on which user \<open>u1\<close> is the stored user.\<close>

lemma demo_same_user: "isSameUser (saveContestState s demoStorage) ''u1''"
  by (simp add: isSameUser_def getCurrentUserId_def getCurrentUserState_def saveContestState_def
        getItem_setItem Let_def)
     (simp add: getItem_def demoStorage_def truthy_item_def JSON_parse_def field_def truthy_def)



text \<open>
  What the effect does with a persisted 0 (the timer has run out, the contest is
  completed) when the page's timer holds 7200 as the effect runs: the restored time left
  is 7200.
\<close>

lemma restored_timer_falls_back:
  "timeLeft (session (fst (restoreSession (Some ''u1'') 0 (demoPage 7200)
         (saveContestState (demoSession 0) demoStorage)))) = 7200"
  by (simp add: restoreSession_def restoreFor_def saved_state_read truthy_item_def
        JSON_parse_def Let_def field_def numberOr_def arrayOr_def demo_same_user truthy_str_def
        demoSession_def demoPage_def)

section \<open>User state manager: the first login\<close>

lemma user_state_key_kept: "\<not> contestRelated ''current_user_state''"
  by (simp add: contestRelated_def userSpecific_def startsWith_def)

lemma resetAllUserState_clears:
  assumes "contestRelated key"
  shows "getItem (resetAllUserState st) key = None"
proof -
  define st1 where "st1 = removeItem ''internet_violations''
                  (removeItem ''final_contest_result''
                     (removeItem ''contest_results'' (removeItem ''contest_state'' st)))"
  have r: "getItem (resetAllUserState st) key
             = (if key \<in> set (filter userSpecific (map fst st1)) then None else getItem st1 key)"
    by (simp add: resetAllUserState_def st1_def[symmetric] Let_def getItem_foldl_removeItem)
  show ?thesis
  proof (cases "userSpecific key")
    case True
    show ?thesis
    proof (cases "key \<in> set (map fst st1)")
      case k: True
      with True show ?thesis by (simp add: r)
    next
      case False
      then have "getItem st1 key = None" by (simp add: getItem_def map_of_eq_None_iff)
      then show ?thesis by (simp add: r)
    qed
  next
    case False
    with assms have "key = ''contest_state'' \<or> key = ''contest_results''
        \<or> key = ''final_contest_result'' \<or> key = ''internet_violations''"
      by (simp add: contestRelated_def)
    then have "getItem st1 key = None"
      by (auto simp: st1_def getItem_removeItem)
    then show ?thesis by (simp add: r)
  qed
qed

lemma resetAllUserState_keeps:
  assumes "\<not> contestRelated key"
  shows "getItem (resetAllUserState st) key = getItem st key"
proof -
  from assms have "\<not> userSpecific key" "key \<noteq> ''contest_state''" "key \<noteq> ''contest_results''"
    "key \<noteq> ''final_contest_result''" "key \<noteq> ''internet_violations''"
    by (auto simp: contestRelated_def)
  then show ?thesis
    by (simp add: resetAllUserState_def Let_def getItem_foldl_removeItem getItem_removeItem)
qed

text \<open>
  Claim C10. When no user state is stored, \<^verbatim>\<open>checkAndResetUserState\<close> returns
  \<^verbatim>\<open>true\<close>. Whenever it returns \<^verbatim>\<open>true\<close>, on a first login as for a
  different user, it has done the same thing: every contest-related key is cleared and
  the new user id is recorded. It returns \<^verbatim>\<open>false\<close> exactly when a user state
  is stored whose user id is the new user id, and then it leaves the persistence as it
  is.
\<close>

theorem checkAndResetUserState_first_login:
  "(getItem st ''current_user_state'' = None \<longrightarrow> fst (checkAndResetUserState newUserId lastLogin st))
   \<and> (fst (checkAndResetUserState newUserId lastLogin st) \<longrightarrow>
        checkAndResetUserState newUserId lastLogin st
          = (True, setCurrentUserState newUserId lastLogin (resetAllUserState st))
        \<and> (\<forall>key. contestRelated key \<longrightarrow>
              getItem (snd (checkAndResetUserState newUserId lastLogin st)) key = None)
        \<and> getItem (snd (checkAndResetUserState newUserId lastLogin st)) ''current_user_state''
            = Some (Json (JObject [(''userId'', JString newUserId),
                                   (''lastLogin'', JString lastLogin)])))
   \<and> (\<not> fst (checkAndResetUserState newUserId lastLogin st) \<longleftrightarrow>
        truthy (getCurrentUserState st)
        \<and> field (getCurrentUserState st) ''userId'' = JString newUserId)
   \<and> (\<not> fst (checkAndResetUserState newUserId lastLogin st) \<longrightarrow>
        snd (checkAndResetUserState newUserId lastLogin st) = st)"
proof -
  have first: "getItem st ''current_user_state'' = None \<Longrightarrow> \<not> truthy (getCurrentUserState st)"
    by (simp add: getCurrentUserState_def truthy_item_def truthy_def Let_def)
  have cleared: "getItem (setCurrentUserState newUserId lastLogin (resetAllUserState st)) key = None"
    if "contestRelated key" for key
  proof -
    from that user_state_key_kept have "key \<noteq> ''current_user_state''" by auto
    then show ?thesis
      by (simp add: setCurrentUserState_def getItem_setItem resetAllUserState_clears[OF that])
  qed
  have recorded: "getItem (setCurrentUserState newUserId lastLogin (resetAllUserState st)) ''current_user_state''
            = Some (Json (JObject [(''userId'', JString newUserId),
                                   (''lastLogin'', JString lastLogin)]))"
    by (simp add: setCurrentUserState_def getItem_setItem stringify_def)
  show ?thesis
    using first cleared recorded
    by (simp add: checkAndResetUserState_def Let_def)
qed

text \<open>A first login on a device that holds a session and a prepared contest.\<close>

theorem checkAndResetUserState_first_login_witness:
  "getItem demoFirstLogin ''current_user_state'' = None
   \<and> fst (checkAndResetUserState ''u1'' ''2025-01-01T00:00:00.000Z'' demoFirstLogin)
   \<and> getItem (snd (checkAndResetUserState ''u1'' ''2025-01-01T00:00:00.000Z'' demoFirstLogin))
        ''contest_state'' = None
   \<and> getItem (snd (checkAndResetUserState ''u1'' ''2025-01-01T00:00:00.000Z'' demoFirstLogin))
        ''contest_prepared_c1'' = None
   \<and> getItem (snd (checkAndResetUserState ''u1'' ''2025-01-01T00:00:00.000Z'' demoFirstLogin))
        ''current_user_state''
        = Some (Json (JObject [(''userId'', JString ''u1''),
                               (''lastLogin'', JString ''2025-01-01T00:00:00.000Z'')]))"
proof -
  have n: "getItem demoFirstLogin ''current_user_state'' = None"
    by (simp add: getItem_def demoFirstLogin_def)
  have c1: "contestRelated ''contest_state''" by (simp add: contestRelated_def)
  have c2: "contestRelated ''contest_prepared_c1''"
    by (simp add: contestRelated_def userSpecific_def startsWith_def)
  show ?thesis
    using checkAndResetUserState_first_login[of demoFirstLogin "''u1''" "''2025-01-01T00:00:00.000Z''"]
      n c1 c2
    by simp
qed

text \<open>The same user again: nothing is reset.\<close>

lemma same_user_keeps_state:
  "checkAndResetUserState ''u1'' lastLogin demoStorage = (False, demoStorage)"
  by (simp add: checkAndResetUserState_def getCurrentUserState_def Let_def)
     (simp add: getItem_def demoStorage_def truthy_item_def JSON_parse_def truthy_def field_def)

end
